theory Spec2Isabelle
  imports Complex_Main
begin

section \<open>Threshold profiles\<close>

text \<open>
  Python floats are modelled as real numbers: every comparison and every sum below is
  taken over \<^typ>\<open>real\<close>, so NaN, infinities and rounding are outside the model.
  The dataclass \<^verbatim>\<open>Thresholds\<close> of both \<^verbatim>\<open>risk_engine.py\<close> files has the same
  twelve fields in the same order.
\<close>

record Thresholds =
  hr_red :: real
  spo2_red :: real
  sys_red :: real
  dia_red :: real
  temp_red_hi :: real
  temp_red_lo :: real
  hr_yellow :: real
  spo2_yellow :: real
  sys_yellow :: real
  dia_yellow :: real
  temp_yellow_hi :: real
  temp_yellow_lo :: real

text \<open>\<^verbatim>\<open>patient_thresholds\<close> of \<^verbatim>\<open>src/risk_engine.py\<close>.\<close>

definition patient_thresholds :: "string \<Rightarrow> Thresholds" where
  "patient_thresholds profile =
     (if profile = ''athlete'' then
        \<lparr>hr_red = 140, spo2_red = 92, sys_red = 170, dia_red = 110,
         temp_red_hi = 39, temp_red_lo = 35,
         hr_yellow = 105, spo2_yellow = 95, sys_yellow = 145, dia_yellow = 95,
         temp_yellow_hi = 38, temp_yellow_lo = 36\<rparr>
      else if profile = ''hypertensive'' then
        \<lparr>hr_red = 150, spo2_red = 92, sys_red = 180, dia_red = 120,
         temp_red_hi = 39, temp_red_lo = 35,
         hr_yellow = 110, spo2_yellow = 95, sys_yellow = 155, dia_yellow = 100,
         temp_yellow_hi = 38, temp_yellow_lo = 36\<rparr>
      else if profile = ''critical'' then
        \<lparr>hr_red = 135, spo2_red = 90, sys_red = 165, dia_red = 105,
         temp_red_hi = 39, temp_red_lo = 35,
         hr_yellow = 105, spo2_yellow = 94, sys_yellow = 145, dia_yellow = 95,
         temp_yellow_hi = 38, temp_yellow_lo = 36\<rparr>
      else
        \<lparr>hr_red = 150, spo2_red = 92, sys_red = 170, dia_red = 110,
         temp_red_hi = 39, temp_red_lo = 35,
         hr_yellow = 110, spo2_yellow = 95, sys_yellow = 150, dia_yellow = 95,
         temp_yellow_hi = 38, temp_yellow_lo = 36\<rparr>)"

text \<open>
  \<^verbatim>\<open>patient_thresholds\<close> of \<^verbatim>\<open>src/backend-python/app/risk_engine.py\<close>: the same
  three tests and the same four tables.
\<close>

definition be_patient_thresholds :: "string \<Rightarrow> Thresholds" where
  "be_patient_thresholds profile =
     (if profile = ''athlete'' then
        \<lparr>hr_red = 140, spo2_red = 92, sys_red = 170, dia_red = 110,
         temp_red_hi = 39, temp_red_lo = 35,
         hr_yellow = 105, spo2_yellow = 95, sys_yellow = 145, dia_yellow = 95,
         temp_yellow_hi = 38, temp_yellow_lo = 36\<rparr>
      else if profile = ''hypertensive'' then
        \<lparr>hr_red = 150, spo2_red = 92, sys_red = 180, dia_red = 120,
         temp_red_hi = 39, temp_red_lo = 35,
         hr_yellow = 110, spo2_yellow = 95, sys_yellow = 155, dia_yellow = 100,
         temp_yellow_hi = 38, temp_yellow_lo = 36\<rparr>
      else if profile = ''critical'' then
        \<lparr>hr_red = 135, spo2_red = 90, sys_red = 165, dia_red = 105,
         temp_red_hi = 39, temp_red_lo = 35,
         hr_yellow = 105, spo2_yellow = 94, sys_yellow = 145, dia_yellow = 95,
         temp_yellow_hi = 38, temp_yellow_lo = 36\<rparr>
      else
        \<lparr>hr_red = 150, spo2_red = 92, sys_red = 170, dia_red = 110,
         temp_red_hi = 39, temp_red_lo = 35,
         hr_yellow = 110, spo2_yellow = 95, sys_yellow = 150, dia_yellow = 95,
         temp_yellow_hi = 38, temp_yellow_lo = 36\<rparr>)"

section \<open>Python values: errors, dictionaries, operators, number formatting\<close>

text \<open>
  The exceptions the modelled functions can raise: a missing dictionary key, and the
  \<^verbatim>\<open>ValueError\<close> of \<^verbatim>\<open>deque(maxlen=...)\<close> for a negative length.
\<close>

datatype py_error = KeyError string | ValueError

text \<open>
  A \<^verbatim>\<open>Dict[str, float]\<close> is a partial map; \<^verbatim>\<open>d[k]\<close> raises \<^verbatim>\<open>KeyError\<close> for a
  missing key.
\<close>

type_synonym vitals = "string \<rightharpoonup> real"

definition getitem :: "(string \<rightharpoonup> real) \<Rightarrow> string \<Rightarrow> py_error + real" where
  "getitem d k = (case d k of None \<Rightarrow> Inl (KeyError k) | Some x \<Rightarrow> Inr x)"

text \<open>Sequencing: an exception ends the computation.\<close>

definition and_then :: "py_error + 'a \<Rightarrow> ('a \<Rightarrow> py_error + 'b) \<Rightarrow> py_error + 'b" where
  "and_then m f = (case m of Inl e \<Rightarrow> Inl e | Inr x \<Rightarrow> f x)"

text \<open>
  \<^verbatim>\<open>d[k] >= c\<close> and \<^verbatim>\<open>d[k] <= c\<close>, and Python's short-circuit \<^verbatim>\<open>or\<close> and
  \<^verbatim>\<open>and\<close>: the right operand is evaluated (and can raise) only when the left one
  does not decide.
\<close>

definition item_ge :: "(string \<rightharpoonup> real) \<Rightarrow> string \<Rightarrow> real \<Rightarrow> py_error + bool" where
  "item_ge d k c = and_then (getitem d k) (\<lambda>x. Inr (x \<ge> c))"

definition item_le :: "(string \<rightharpoonup> real) \<Rightarrow> string \<Rightarrow> real \<Rightarrow> py_error + bool" where
  "item_le d k c = and_then (getitem d k) (\<lambda>x. Inr (x \<le> c))"

definition py_or :: "py_error + bool \<Rightarrow> py_error + bool \<Rightarrow> py_error + bool" where
  "py_or a b = and_then a (\<lambda>x. if x then Inr True else b)"

definition py_and :: "py_error + bool \<Rightarrow> py_error + bool \<Rightarrow> py_error + bool" where
  "py_and a b = and_then a (\<lambda>x. if x then b else Inr False)"

text \<open>
  \<^verbatim>\<open>format(x, ".pf")\<close> on a finite number: the decimal expansion of \<open>x\<close> rounded to
  \<open>p\<close> places, ties to the even neighbour, with the sign of \<open>x\<close> kept even when the
  digits round to zero.
\<close>

definition digit_char :: "nat \<Rightarrow> char" where
  "digit_char d = ''0123456789'' ! d"

fun dec_digits :: "nat \<Rightarrow> string" where
  "dec_digits n =
     (if n < 10 then [digit_char n] else dec_digits (n div 10) @ [digit_char (n mod 10)])"

declare dec_digits.simps [simp del]

definition round_half_even :: "real \<Rightarrow> int" where
  "round_half_even x =
     (let f = \<lfloor>x\<rfloor>; r = x - of_int f
      in if r < 1 / 2 then f else if 1 / 2 < r then f + 1
         else if even f then f else f + 1)"

definition format_f :: "nat \<Rightarrow> real \<Rightarrow> string" where
  "format_f p x =
     (let n = nat (round_half_even (\<bar>x\<bar> * 10 ^ p));
          whole = dec_digits (n div 10 ^ p);
          frac = dec_digits (n mod 10 ^ p)
      in (if x < 0 then ''-'' else []) @ whole @
         (if p = 0 then [] else ''.'' @ replicate (p - length frac) (CHR ''0'') @ frac))"

section \<open>The classifier\<close>

text \<open>The four local variables of \<^verbatim>\<open>classify_level\<close>.\<close>

record cls_state =
  reasons :: "string list"
  score :: real
  red_hits :: int
  warn_hits :: int

text \<open>The reason strings, one definition per f-string of the source.\<close>

definition reason_hr_red :: "real \<Rightarrow> Thresholds \<Rightarrow> string" where
  "reason_hr_red hr th = ''HR '' @ format_f 0 hr @ '' >= '' @ format_f 0 (hr_red th)"

definition reason_spo2_red :: "real \<Rightarrow> Thresholds \<Rightarrow> string" where
  "reason_spo2_red spo2 th =
     ''SpO2 '' @ format_f 0 spo2 @ ''% <= '' @ format_f 0 (spo2_red th) @ ''%''"

definition reason_bp_red :: "real \<Rightarrow> real \<Rightarrow> Thresholds \<Rightarrow> string" where
  "reason_bp_red sys dia th =
     ''BP '' @ format_f 0 sys @ ''/'' @ format_f 0 dia @ '' >= '' @
     format_f 0 (sys_red th) @ ''/'' @ format_f 0 (dia_red th)"

definition reason_temp_red :: "real \<Rightarrow> Thresholds \<Rightarrow> string" where
  "reason_temp_red temp th =
     ''Temp '' @ format_f 1 temp @ '' outside ['' @ format_f 1 (temp_red_lo th) @ '','' @
     format_f 1 (temp_red_hi th) @ '']''"

definition reason_hr_trend :: "real \<Rightarrow> string" where
  "reason_hr_trend r = ''HR rising fast (+'' @ format_f 1 r @ ''/min)''"

definition reason_spo2_trend :: "real \<Rightarrow> string" where
  "reason_spo2_trend r = ''SpO2 dropping (-'' @ format_f 1 \<bar>r\<bar> @ ''/min)''"

definition reason_sys_trend :: "real \<Rightarrow> string" where
  "reason_sys_trend r = ''Systolic rising (+'' @ format_f 1 r @ ''/min)''"

definition reason_hr_yellow :: "real \<Rightarrow> Thresholds \<Rightarrow> string" where
  "reason_hr_yellow hr th =
     ''HR '' @ format_f 0 hr @ '' >= '' @ format_f 0 (hr_yellow th) @ '' (warning)''"

definition reason_spo2_yellow :: "real \<Rightarrow> Thresholds \<Rightarrow> string" where
  "reason_spo2_yellow spo2 th =
     ''SpO2 '' @ format_f 0 spo2 @ ''% <= '' @ format_f 0 (spo2_yellow th) @ ''% (warning)''"

definition reason_bp_yellow :: "real \<Rightarrow> real \<Rightarrow> string" where
  "reason_bp_yellow sys dia =
     ''BP '' @ format_f 0 sys @ ''/'' @ format_f 0 dia @ '' elevated (warning)''"

definition reason_temp_yellow :: "real \<Rightarrow> string" where
  "reason_temp_yellow temp = ''Temp '' @ format_f 1 temp @ '' abnormal (warning)''"

text \<open>
  The eleven \<^verbatim>\<open>if\<close> blocks of \<^verbatim>\<open>classify_level\<close> in \<^verbatim>\<open>src/risk_engine.py\<close>,
  in source order. Each reads its dictionary entries where the source does: in the
  condition, left to right with short-circuit \<^verbatim>\<open>or\<close>, and again in the f-string of
  the reason.
\<close>

definition red_heart_rate :: "vitals \<Rightarrow> Thresholds \<Rightarrow> cls_state \<Rightarrow> py_error + cls_state" where
  "red_heart_rate v th s =
     and_then (item_ge v ''heart_rate'' (hr_red th)) (\<lambda>c.
       if c then
         and_then (getitem v ''heart_rate'') (\<lambda>hr.
           Inr (s\<lparr>red_hits := red_hits s + 1, score := score s + 25,
                   reasons := reasons s @ [reason_hr_red hr th]\<rparr>))
       else Inr s)"

definition red_oxygen_saturation ::
  "vitals \<Rightarrow> Thresholds \<Rightarrow> cls_state \<Rightarrow> py_error + cls_state" where
  "red_oxygen_saturation v th s =
     and_then (item_le v ''oxygen_saturation'' (spo2_red th)) (\<lambda>c.
       if c then
         and_then (getitem v ''oxygen_saturation'') (\<lambda>spo2.
           Inr (s\<lparr>red_hits := red_hits s + 1, score := score s + 30,
                   reasons := reasons s @ [reason_spo2_red spo2 th]\<rparr>))
       else Inr s)"

definition red_blood_pressure ::
  "vitals \<Rightarrow> Thresholds \<Rightarrow> cls_state \<Rightarrow> py_error + cls_state" where
  "red_blood_pressure v th s =
     and_then (py_or (item_ge v ''bp_systolic'' (sys_red th))
                     (item_ge v ''bp_diastolic'' (dia_red th))) (\<lambda>c.
       if c then
         and_then (getitem v ''bp_systolic'') (\<lambda>sys.
         and_then (getitem v ''bp_diastolic'') (\<lambda>dia.
           Inr (s\<lparr>red_hits := red_hits s + 1, score := score s + 25,
                   reasons := reasons s @ [reason_bp_red sys dia th]\<rparr>)))
       else Inr s)"

definition red_temperature :: "vitals \<Rightarrow> Thresholds \<Rightarrow> cls_state \<Rightarrow> py_error + cls_state" where
  "red_temperature v th s =
     and_then (py_or (item_ge v ''temperature'' (temp_red_hi th))
                     (item_le v ''temperature'' (temp_red_lo th))) (\<lambda>c.
       if c then
         and_then (getitem v ''temperature'') (\<lambda>temp.
           Inr (s\<lparr>red_hits := red_hits s + 1, score := score s + 15,
                   reasons := reasons s @ [reason_temp_red temp th]\<rparr>))
       else Inr s)"

definition trend_heart_rate :: "(string \<rightharpoonup> real) \<Rightarrow> cls_state \<Rightarrow> py_error + cls_state" where
  "trend_heart_rate rates s =
     and_then (item_ge rates ''heart_rate'' 15) (\<lambda>c.
       if c then
         and_then (getitem rates ''heart_rate'') (\<lambda>r.
           Inr (s\<lparr>score := score s + 10, reasons := reasons s @ [reason_hr_trend r]\<rparr>))
       else Inr s)"

definition trend_oxygen_saturation ::
  "(string \<rightharpoonup> real) \<Rightarrow> cls_state \<Rightarrow> py_error + cls_state" where
  "trend_oxygen_saturation rates s =
     and_then (item_le rates ''oxygen_saturation'' (- 2)) (\<lambda>c.
       if c then
         and_then (getitem rates ''oxygen_saturation'') (\<lambda>r.
           Inr (s\<lparr>score := score s + 15, reasons := reasons s @ [reason_spo2_trend r]\<rparr>))
       else Inr s)"

definition trend_bp_systolic :: "(string \<rightharpoonup> real) \<Rightarrow> cls_state \<Rightarrow> py_error + cls_state" where
  "trend_bp_systolic rates s =
     and_then (item_ge rates ''bp_systolic'' 10) (\<lambda>c.
       if c then
         and_then (getitem rates ''bp_systolic'') (\<lambda>r.
           Inr (s\<lparr>score := score s + 10, reasons := reasons s @ [reason_sys_trend r]\<rparr>))
       else Inr s)"

definition yellow_heart_rate :: "vitals \<Rightarrow> Thresholds \<Rightarrow> cls_state \<Rightarrow> py_error + cls_state" where
  "yellow_heart_rate v th s =
     and_then (item_ge v ''heart_rate'' (hr_yellow th)) (\<lambda>c.
       if c then
         and_then (getitem v ''heart_rate'') (\<lambda>hr.
           Inr (s\<lparr>warn_hits := warn_hits s + 1, score := score s + 8,
                   reasons := reasons s @ [reason_hr_yellow hr th]\<rparr>))
       else Inr s)"

definition yellow_oxygen_saturation ::
  "vitals \<Rightarrow> Thresholds \<Rightarrow> cls_state \<Rightarrow> py_error + cls_state" where
  "yellow_oxygen_saturation v th s =
     and_then (item_le v ''oxygen_saturation'' (spo2_yellow th)) (\<lambda>c.
       if c then
         and_then (getitem v ''oxygen_saturation'') (\<lambda>spo2.
           Inr (s\<lparr>warn_hits := warn_hits s + 1, score := score s + 10,
                   reasons := reasons s @ [reason_spo2_yellow spo2 th]\<rparr>))
       else Inr s)"

definition yellow_blood_pressure ::
  "vitals \<Rightarrow> Thresholds \<Rightarrow> cls_state \<Rightarrow> py_error + cls_state" where
  "yellow_blood_pressure v th s =
     and_then (py_or (item_ge v ''bp_systolic'' (sys_yellow th))
                     (item_ge v ''bp_diastolic'' (dia_yellow th))) (\<lambda>c.
       if c then
         and_then (getitem v ''bp_systolic'') (\<lambda>sys.
         and_then (getitem v ''bp_diastolic'') (\<lambda>dia.
           Inr (s\<lparr>warn_hits := warn_hits s + 1, score := score s + 8,
                   reasons := reasons s @ [reason_bp_yellow sys dia]\<rparr>)))
       else Inr s)"

definition yellow_temperature ::
  "vitals \<Rightarrow> Thresholds \<Rightarrow> cls_state \<Rightarrow> py_error + cls_state" where
  "yellow_temperature v th s =
     and_then (py_or (item_ge v ''temperature'' (temp_yellow_hi th))
                     (item_le v ''temperature'' (temp_yellow_lo th))) (\<lambda>c.
       if c then
         and_then (getitem v ''temperature'') (\<lambda>temp.
           Inr (s\<lparr>warn_hits := warn_hits s + 1, score := score s + 6,
                   reasons := reasons s @ [reason_temp_yellow temp]\<rparr>))
       else Inr s)"

text \<open>
  Lines 71 to 110 of \<^verbatim>\<open>src/risk_engine.py\<close>: the variables are initialised and the
  eleven blocks run in order. The state returned holds the raw (unclamped) score.
\<close>

definition checks :: "vitals \<Rightarrow> Thresholds \<Rightarrow> (string \<rightharpoonup> real) \<Rightarrow> py_error + cls_state" where
  "checks v th rates =
     and_then (red_heart_rate v th \<lparr>reasons = [], score = 0, red_hits = 0, warn_hits = 0\<rparr>) (\<lambda>s.
     and_then (red_oxygen_saturation v th s) (\<lambda>s.
     and_then (red_blood_pressure v th s) (\<lambda>s.
     and_then (red_temperature v th s) (\<lambda>s.
     and_then (trend_heart_rate rates s) (\<lambda>s.
     and_then (trend_oxygen_saturation rates s) (\<lambda>s.
     and_then (trend_bp_systolic rates s) (\<lambda>s.
     and_then (yellow_heart_rate v th s) (\<lambda>s.
     and_then (yellow_oxygen_saturation v th s) (\<lambda>s.
     and_then (yellow_blood_pressure v th s) (\<lambda>s.
     yellow_temperature v th s))))))))))"

text \<open>
  Lines 112 to 120: the score is clamped, then the level is decided by the first test
  that holds. The result is the triple \<^verbatim>\<open>(level, reasons, score)\<close>.
\<close>

definition decide :: "cls_state \<Rightarrow> string \<times> string list \<times> real" where
  "decide s =
     (let clamped = max 0 (min 100 (score s))
      in if red_hits s \<ge> 1 \<and> clamped \<ge> 55 then (''red'', reasons s, clamped)
         else if red_hits s \<ge> 1 \<or> clamped \<ge> 45 \<or> warn_hits s \<ge> 2
              then (''orange'', reasons s, clamped)
         else if warn_hits s \<ge> 1 \<or> clamped \<ge> 20 then (''yellow'', reasons s, clamped)
         else (''green'', reasons s, clamped))"

definition classify_level ::
  "vitals \<Rightarrow> Thresholds \<Rightarrow> (string \<rightharpoonup> real) \<Rightarrow> py_error + string \<times> string list \<times> real" where
  "classify_level v th rates = and_then (checks v th rates) (\<lambda>s. Inr (decide s))"

text \<open>
  \<^verbatim>\<open>classify_level\<close> of \<^verbatim>\<open>src/backend-python/app/risk_engine.py\<close>. Ten of its
  blocks hold the statements of the blocks above (the append before the score update,
  which changes nothing in the state reached). The heart-rate warning block differs:
  it appends its reason only when the red heart-rate string is not in the list yet.
\<close>

definition be_yellow_heart_rate ::
  "vitals \<Rightarrow> Thresholds \<Rightarrow> cls_state \<Rightarrow> py_error + cls_state" where
  "be_yellow_heart_rate v th s =
     and_then (item_ge v ''heart_rate'' (hr_yellow th)) (\<lambda>c.
       if c then
         and_then (getitem v ''heart_rate'') (\<lambda>hr.
           Inr ((if reason_hr_red hr th \<notin> set (reasons s)
                 then s\<lparr>warn_hits := warn_hits s + 1,
                        reasons := reasons s @ [reason_hr_yellow hr th]\<rparr>
                 else s\<lparr>warn_hits := warn_hits s + 1\<rparr>)
                \<lparr>score := score s + 8\<rparr>))
       else Inr s)"

definition be_checks :: "vitals \<Rightarrow> Thresholds \<Rightarrow> (string \<rightharpoonup> real) \<Rightarrow> py_error + cls_state" where
  "be_checks v th rates =
     and_then (red_heart_rate v th \<lparr>reasons = [], score = 0, red_hits = 0, warn_hits = 0\<rparr>) (\<lambda>s.
     and_then (red_oxygen_saturation v th s) (\<lambda>s.
     and_then (red_blood_pressure v th s) (\<lambda>s.
     and_then (red_temperature v th s) (\<lambda>s.
     and_then (trend_heart_rate rates s) (\<lambda>s.
     and_then (trend_oxygen_saturation rates s) (\<lambda>s.
     and_then (trend_bp_systolic rates s) (\<lambda>s.
     and_then (be_yellow_heart_rate v th s) (\<lambda>s.
     and_then (yellow_oxygen_saturation v th s) (\<lambda>s.
     and_then (yellow_blood_pressure v th s) (\<lambda>s.
     yellow_temperature v th s))))))))))"

definition be_classify_level ::
  "vitals \<Rightarrow> Thresholds \<Rightarrow> (string \<rightharpoonup> real) \<Rightarrow> py_error + string \<times> string list \<times> real" where
  "be_classify_level v th rates = and_then (be_checks v th rates) (\<lambda>s. Inr (decide s))"

text \<open>
  The common shape of the blocks, used to state what each one does once its dictionary
  entries are known to be present: when the condition holds, the counters and the score
  grow and the messages are appended; otherwise the state is unchanged.
\<close>

definition hit :: "bool \<Rightarrow> int \<Rightarrow> int \<Rightarrow> real \<Rightarrow> string list \<Rightarrow> cls_state \<Rightarrow> cls_state" where
  "hit c r w pts msgs s =
     (if c then s\<lparr>red_hits := red_hits s + r, warn_hits := warn_hits s + w,
                  score := score s + pts, reasons := reasons s @ msgs\<rparr>
      else s)"

text \<open>
  The state after the four red checks and the three trend boosts, for inputs whose
  entries are all present; both classifiers reach it before their warning checks.
\<close>

definition early_state ::
  "Thresholds \<Rightarrow> real \<Rightarrow> real \<Rightarrow> real \<Rightarrow> real \<Rightarrow> real \<Rightarrow> real \<Rightarrow> real \<Rightarrow> real \<Rightarrow> cls_state" where
  "early_state th hr spo2 sys dia temp r_hr r_spo2 r_sys =
     hit (r_sys \<ge> 10) 0 0 10 [reason_sys_trend r_sys]
      (hit (r_spo2 \<le> - 2) 0 0 15 [reason_spo2_trend r_spo2]
      (hit (r_hr \<ge> 15) 0 0 10 [reason_hr_trend r_hr]
      (hit (temp \<ge> temp_red_hi th \<or> temp \<le> temp_red_lo th) 1 0 15 [reason_temp_red temp th]
      (hit (sys \<ge> sys_red th \<or> dia \<ge> dia_red th) 1 0 25 [reason_bp_red sys dia th]
      (hit (spo2 \<le> spo2_red th) 1 0 30 [reason_spo2_red spo2 th]
      (hit (hr \<ge> hr_red th) 1 0 25 [reason_hr_red hr th]
         \<lparr>reasons = [], score = 0, red_hits = 0, warn_hits = 0\<rparr>))))))"

text \<open>
  The reasons list as the specification describes it: the reasons of the red checks that
  trigger, in order, then those of the trend boosts, then those of the warning checks
  after the heart-rate one.
\<close>

definition red_reasons :: "Thresholds \<Rightarrow> real \<Rightarrow> real \<Rightarrow> real \<Rightarrow> real \<Rightarrow> real \<Rightarrow> string list" where
  "red_reasons th hr spo2 sys dia temp =
     (if hr \<ge> hr_red th then [reason_hr_red hr th] else []) @
     (if spo2 \<le> spo2_red th then [reason_spo2_red spo2 th] else []) @
     (if sys \<ge> sys_red th \<or> dia \<ge> dia_red th then [reason_bp_red sys dia th] else []) @
     (if temp \<ge> temp_red_hi th \<or> temp \<le> temp_red_lo th then [reason_temp_red temp th] else [])"

definition trend_reasons :: "real \<Rightarrow> real \<Rightarrow> real \<Rightarrow> string list" where
  "trend_reasons r_hr r_spo2 r_sys =
     (if r_hr \<ge> 15 then [reason_hr_trend r_hr] else []) @
     (if r_spo2 \<le> - 2 then [reason_spo2_trend r_spo2] else []) @
     (if r_sys \<ge> 10 then [reason_sys_trend r_sys] else [])"

definition later_yellow_reasons :: "Thresholds \<Rightarrow> real \<Rightarrow> real \<Rightarrow> real \<Rightarrow> real \<Rightarrow> string list" where
  "later_yellow_reasons th spo2 sys dia temp =
     (if spo2 \<le> spo2_yellow th then [reason_spo2_yellow spo2 th] else []) @
     (if sys \<ge> sys_yellow th \<or> dia \<ge> dia_yellow th then [reason_bp_yellow sys dia] else []) @
     (if temp \<ge> temp_yellow_hi th \<or> temp \<le> temp_yellow_lo th
      then [reason_temp_yellow temp] else [])"

text \<open>The counters and the raw score, as the specification's steps 1 to 4 give them.\<close>

definition red_count :: "Thresholds \<Rightarrow> real \<Rightarrow> real \<Rightarrow> real \<Rightarrow> real \<Rightarrow> real \<Rightarrow> int" where
  "red_count th hr spo2 sys dia temp =
     of_bool (hr \<ge> hr_red th) + of_bool (spo2 \<le> spo2_red th) +
     of_bool (sys \<ge> sys_red th \<or> dia \<ge> dia_red th) +
     of_bool (temp \<ge> temp_red_hi th \<or> temp \<le> temp_red_lo th)"

definition warn_count :: "Thresholds \<Rightarrow> real \<Rightarrow> real \<Rightarrow> real \<Rightarrow> real \<Rightarrow> real \<Rightarrow> int" where
  "warn_count th hr spo2 sys dia temp =
     of_bool (hr \<ge> hr_yellow th) + of_bool (spo2 \<le> spo2_yellow th) +
     of_bool (sys \<ge> sys_yellow th \<or> dia \<ge> dia_yellow th) +
     of_bool (temp \<ge> temp_yellow_hi th \<or> temp \<le> temp_yellow_lo th)"

definition red_points :: "Thresholds \<Rightarrow> real \<Rightarrow> real \<Rightarrow> real \<Rightarrow> real \<Rightarrow> real \<Rightarrow> real" where
  "red_points th hr spo2 sys dia temp =
     25 * of_bool (hr \<ge> hr_red th) + 30 * of_bool (spo2 \<le> spo2_red th) +
     25 * of_bool (sys \<ge> sys_red th \<or> dia \<ge> dia_red th) +
     15 * of_bool (temp \<ge> temp_red_hi th \<or> temp \<le> temp_red_lo th)"

definition trend_points :: "real \<Rightarrow> real \<Rightarrow> real \<Rightarrow> real" where
  "trend_points r_hr r_spo2 r_sys =
     10 * of_bool (r_hr \<ge> 15) + 15 * of_bool (r_spo2 \<le> - 2) + 10 * of_bool (r_sys \<ge> 10)"

definition yellow_points :: "Thresholds \<Rightarrow> real \<Rightarrow> real \<Rightarrow> real \<Rightarrow> real \<Rightarrow> real \<Rightarrow> real" where
  "yellow_points th hr spo2 sys dia temp =
     8 * of_bool (hr \<ge> hr_yellow th) + 10 * of_bool (spo2 \<le> spo2_yellow th) +
     8 * of_bool (sys \<ge> sys_yellow th \<or> dia \<ge> dia_yellow th) +
     6 * of_bool (temp \<ge> temp_yellow_hi th \<or> temp \<le> temp_yellow_lo th)"

section \<open>Outcome inference\<close>

text \<open>
  An outcome is a dictionary with four entries. The module \<^verbatim>\<open>src/risk_engine.py\<close>
  stores the recommendation under the key \<^verbatim>\<open>action\<close>, the backend module under
  \<^verbatim>\<open>suggested_action\<close>; the field \<open>action\<close> stands for either.
\<close>

record outcome =
  name :: string
  probability :: real
  because :: "string list"
  action :: string

text \<open>The five dictionary literals of \<^verbatim>\<open>infer_outcomes\<close> in \<^verbatim>\<open>src/risk_engine.py\<close>.\<close>

definition cardiac_outcome :: "string \<Rightarrow> string list \<Rightarrow> outcome" where
  "cardiac_outcome level rs =
     \<lparr>name = ''Acute cardiac event risk'',
      probability = (if level = ''red'' then 0.75 else 0.55),
      because = [''High HR with high BP or low SpO2''] @ take 2 rs,
      action = ''Immediate clinician review; ECG + troponin; oxygen support if needed.''\<rparr>"

definition stroke_outcome :: "string \<Rightarrow> string list \<Rightarrow> outcome" where
  "stroke_outcome level rs =
     \<lparr>name = ''Stroke / hypertensive crisis risk'',
      probability = (if level = ''orange'' \<or> level = ''red'' then 0.80 else 0.60),
      because = [''Severely elevated blood pressure''] @ take 2 rs,
      action = ''Urgent BP management; neuro checks; emergency protocol if needed.''\<rparr>"

definition respiratory_outcome :: "string \<Rightarrow> string list \<Rightarrow> outcome" where
  "respiratory_outcome level rs =
     \<lparr>name = ''Respiratory compromise risk'',
      probability = (if level = ''red'' then 0.85 else 0.65),
      because = [''Low oxygen saturation''] @ take 2 rs,
      action = ''Check airway; oxygen; evaluate pulmonary causes.''\<rparr>"

definition sepsis_outcome :: "string \<Rightarrow> string list \<Rightarrow> outcome" where
  "sepsis_outcome level rs =
     \<lparr>name = ''Systemic infection / sepsis risk (screen)'',
      probability = (if level = ''orange'' \<or> level = ''red'' then 0.60 else 0.40),
      because = [''Fever + tachycardia pattern''] @ take 2 rs,
      action = ''Clinical assessment; labs; fluids per protocol if indicated.''\<rparr>"

definition fallback_outcome :: "string list \<Rightarrow> outcome" where
  "fallback_outcome rs =
     \<lparr>name = ''Undifferentiated deterioration risk'',
      probability = 0.50,
      because = take 3 rs,
      action = ''Repeat vitals; verify sensors; clinician evaluation.''\<rparr>"

text \<open>
  \<^verbatim>\<open>infer_outcomes\<close> of \<^verbatim>\<open>src/risk_engine.py\<close>: four \<^verbatim>\<open>if\<close> statements, each
  appending to \<^verbatim>\<open>outcomes\<close> when its condition holds, then the fallback. The conditions
  read the dictionary with short-circuit \<^verbatim>\<open>and\<close> and \<^verbatim>\<open>or\<close>. The parameter
  \<^verbatim>\<open>reasons\<close> is written \<open>rs\<close>.
\<close>

definition infer_outcomes :: "vitals \<Rightarrow> string \<Rightarrow> string list \<Rightarrow> py_error + outcome list" where
  "infer_outcomes v level rs =
     and_then (py_and (item_ge v ''heart_rate'' 130)
                 (py_or (item_ge v ''bp_systolic'' 170)
                        (item_le v ''oxygen_saturation'' 92))) (\<lambda>c1.
     let outcomes = (if c1 then [cardiac_outcome level rs] else []) in
     and_then (py_or (item_ge v ''bp_systolic'' 180) (item_ge v ''bp_diastolic'' 120)) (\<lambda>c2.
     let outcomes = (if c2 then outcomes @ [stroke_outcome level rs] else outcomes) in
     and_then (item_le v ''oxygen_saturation'' 90) (\<lambda>c3.
     let outcomes = (if c3 then outcomes @ [respiratory_outcome level rs] else outcomes) in
     and_then (py_and (item_ge v ''temperature'' 38.5) (item_ge v ''heart_rate'' 120)) (\<lambda>c4.
     let outcomes = (if c4 then outcomes @ [sepsis_outcome level rs] else outcomes) in
     Inr (if outcomes = [] \<and> (level = ''orange'' \<or> level = ''red'')
          then outcomes @ [fallback_outcome rs] else outcomes)))))"

text \<open>
  \<^verbatim>\<open>infer_outcomes\<close> of \<^verbatim>\<open>src/backend-python/app/risk_engine.py\<close>: the same
  conditions, names, probabilities and explanations; three recommendation texts differ.
\<close>

definition be_cardiac_outcome :: "string \<Rightarrow> string list \<Rightarrow> outcome" where
  "be_cardiac_outcome level rs =
     \<lparr>name = ''Acute cardiac event risk'',
      probability = (if level = ''red'' then 0.75 else 0.55),
      because = [''High HR with high BP or low SpO2''] @ take 2 rs,
      action = ''Immediate clinician review; ECG + troponin; oxygen support if needed.''\<rparr>"

definition be_stroke_outcome :: "string \<Rightarrow> string list \<Rightarrow> outcome" where
  "be_stroke_outcome level rs =
     \<lparr>name = ''Stroke / hypertensive crisis risk'',
      probability = (if level = ''orange'' \<or> level = ''red'' then 0.80 else 0.60),
      because = [''Severely elevated blood pressure''] @ take 2 rs,
      action = ''Urgent BP management; neuro checks; consider emergency protocol.''\<rparr>"

definition be_respiratory_outcome :: "string \<Rightarrow> string list \<Rightarrow> outcome" where
  "be_respiratory_outcome level rs =
     \<lparr>name = ''Respiratory compromise risk'',
      probability = (if level = ''red'' then 0.85 else 0.65),
      because = [''Low oxygen saturation''] @ take 2 rs,
      action = ''Check airway; oxygen; consider ABG; evaluate pulmonary causes.''\<rparr>"

definition be_sepsis_outcome :: "string \<Rightarrow> string list \<Rightarrow> outcome" where
  "be_sepsis_outcome level rs =
     \<lparr>name = ''Systemic infection / sepsis risk (screen)'',
      probability = (if level = ''orange'' \<or> level = ''red'' then 0.60 else 0.40),
      because = [''Fever + tachycardia pattern''] @ take 2 rs,
      action = ''Clinical assessment; labs; cultures; fluids per protocol if indicated.''\<rparr>"

definition be_fallback_outcome :: "string list \<Rightarrow> outcome" where
  "be_fallback_outcome rs =
     \<lparr>name = ''Undifferentiated deterioration risk'',
      probability = 0.50,
      because = take 3 rs,
      action = ''Repeat vitals; verify sensors; clinician evaluation.''\<rparr>"

definition be_infer_outcomes :: "vitals \<Rightarrow> string \<Rightarrow> string list \<Rightarrow> py_error + outcome list" where
  "be_infer_outcomes v level rs =
     and_then (py_and (item_ge v ''heart_rate'' 130)
                 (py_or (item_ge v ''bp_systolic'' 170)
                        (item_le v ''oxygen_saturation'' 92))) (\<lambda>c1.
     let outcomes = (if c1 then [be_cardiac_outcome level rs] else []) in
     and_then (py_or (item_ge v ''bp_systolic'' 180) (item_ge v ''bp_diastolic'' 120)) (\<lambda>c2.
     let outcomes = (if c2 then outcomes @ [be_stroke_outcome level rs] else outcomes) in
     and_then (item_le v ''oxygen_saturation'' 90) (\<lambda>c3.
     let outcomes = (if c3 then outcomes @ [be_respiratory_outcome level rs] else outcomes) in
     and_then (py_and (item_ge v ''temperature'' 38.5) (item_ge v ''heart_rate'' 120)) (\<lambda>c4.
     let outcomes = (if c4 then outcomes @ [be_sepsis_outcome level rs] else outcomes) in
     Inr (if outcomes = [] \<and> (level = ''orange'' \<or> level = ''red'')
          then outcomes @ [be_fallback_outcome rs] else outcomes)))))"

text \<open>
  The outcomes of the rules that fire, as the specification lists them: each rule
  contributes its outcome when its own condition holds, whatever the other rules do.
\<close>

definition fired_outcomes ::
  "real \<Rightarrow> real \<Rightarrow> real \<Rightarrow> real \<Rightarrow> real \<Rightarrow> string \<Rightarrow> string list \<Rightarrow> outcome list" where
  "fired_outcomes hr sys dia spo2 temp level rs =
     (if hr \<ge> 130 \<and> (sys \<ge> 170 \<or> spo2 \<le> 92) then [cardiac_outcome level rs] else []) @
     (if sys \<ge> 180 \<or> dia \<ge> 120 then [stroke_outcome level rs] else []) @
     (if spo2 \<le> 90 then [respiratory_outcome level rs] else []) @
     (if temp \<ge> 38.5 \<and> hr \<ge> 120 then [sepsis_outcome level rs] else [])"

definition be_fired_outcomes ::
  "real \<Rightarrow> real \<Rightarrow> real \<Rightarrow> real \<Rightarrow> real \<Rightarrow> string \<Rightarrow> string list \<Rightarrow> outcome list" where
  "be_fired_outcomes hr sys dia spo2 temp level rs =
     (if hr \<ge> 130 \<and> (sys \<ge> 170 \<or> spo2 \<le> 92) then [be_cardiac_outcome level rs] else []) @
     (if sys \<ge> 180 \<or> dia \<ge> 120 then [be_stroke_outcome level rs] else []) @
     (if spo2 \<le> 90 then [be_respiratory_outcome level rs] else []) @
     (if temp \<ge> 38.5 \<and> hr \<ge> 120 then [be_sepsis_outcome level rs] else [])"

section \<open>The rolling window\<close>

text \<open>
  A \<^verbatim>\<open>deque(maxlen=n)\<close> holding its items oldest first. \<^verbatim>\<open>deque\<close> refuses a negative
  length with \<^verbatim>\<open>ValueError\<close>. \<^verbatim>\<open>append\<close> adds the item on the right and, when the
  deque is then longer than \<open>n\<close>, drops the leftmost item.
\<close>

record RollingWindow =
  maxlen :: nat
  data :: "(real \<times> vitals) list"

definition deque_append :: "nat \<Rightarrow> 'a list \<Rightarrow> 'a \<Rightarrow> 'a list" where
  "deque_append n xs x = (let ys = xs @ [x] in if length ys > n then tl ys else ys)"

definition RollingWindow_init :: "int \<Rightarrow> py_error + RollingWindow" where
  "RollingWindow_init n = (if n < 0 then Inl ValueError else Inr \<lparr>maxlen = nat n, data = []\<rparr>)"

text \<open>
  The default of the parameter \<^verbatim>\<open>maxlen\<close>: 120 in \<^verbatim>\<open>src/risk_engine.py\<close>, 60 in the
  backend module.
\<close>

definition default_maxlen :: int where
  "default_maxlen = 120"

definition be_default_maxlen :: int where
  "be_default_maxlen = 60"

text \<open>
  \<^verbatim>\<open>push\<close> of \<^verbatim>\<open>src/risk_engine.py\<close> appends \<^verbatim>\<open>(t_epoch or time.time(), vitals)\<close>.
  The argument \<open>now\<close> is what \<^verbatim>\<open>time.time()\<close> returns if it is called; \<^verbatim>\<open>or\<close> calls it
  when \<^verbatim>\<open>t_epoch\<close> is falsy, that is \<^verbatim>\<open>None\<close> or zero. \<open>stamp\<close> is the value of
  the expression \<^verbatim>\<open>t_epoch or time.time()\<close>.
\<close>

definition stamp :: "real option \<Rightarrow> real \<Rightarrow> real" where
  "stamp t_epoch now = (case t_epoch of None \<Rightarrow> now | Some t \<Rightarrow> if t = 0 then now else t)"

definition push :: "vitals \<Rightarrow> real option \<Rightarrow> real \<Rightarrow> RollingWindow \<Rightarrow> RollingWindow" where
  "push vitals t_epoch now w =
     w\<lparr>data := deque_append (maxlen w) (data w) (stamp t_epoch now, vitals)\<rparr>"

text \<open>\<^verbatim>\<open>push\<close> of the backend module takes the timestamp first and stores it as given.\<close>

definition be_push :: "real \<Rightarrow> vitals \<Rightarrow> RollingWindow \<Rightarrow> RollingWindow" where
  "be_push t_epoch vitals w = w\<lparr>data := deque_append (maxlen w) (data w) (t_epoch, vitals)\<rparr>"

text \<open>
  The \<^verbatim>\<open>for\<close> loop of \<^verbatim>\<open>_rate_per_min\<close>: it walks the buffer from the oldest entry and
  stops at the first one whose age reaches \<open>seconds\<close>; \<open>ref\<close> is the value of
  \<^verbatim>\<open>(t_ref, v_ref)\<close> before the loop, kept when no entry stops it.
\<close>

fun scan_ref :: "real \<Rightarrow> real \<Rightarrow> (real \<times> vitals) list \<Rightarrow> real \<times> vitals \<Rightarrow> real \<times> vitals" where
  "scan_ref t_now seconds [] ref = ref"
| "scan_ref t_now seconds ((t_i, v_i) # rest) ref =
     (if t_now - t_i \<ge> seconds then (t_i, v_i) else scan_ref t_now seconds rest ref)"

text \<open>\<^verbatim>\<open>_rate_per_min\<close> of \<^verbatim>\<open>src/risk_engine.py\<close>.\<close>

definition rate_per_min :: "string \<Rightarrow> real \<Rightarrow> RollingWindow \<Rightarrow> py_error + real" where
  "rate_per_min key seconds w =
     (if length (data w) < 2 then Inr 0
      else
        let (t_now, v_now) = last (data w);
            (t_ref, v_ref) = scan_ref t_now seconds (data w) (hd (data w));
            dt = max (1 / 1000000) (t_now - t_ref)
        in and_then (getitem v_now key) (\<lambda>a.
           and_then (getitem v_ref key) (\<lambda>b. Inr ((a - b) / dt * 60))))"

text \<open>\<^verbatim>\<open>_rate\<close> of the backend module: the same statements.\<close>

definition be_rate :: "string \<Rightarrow> real \<Rightarrow> RollingWindow \<Rightarrow> py_error + real" where
  "be_rate key seconds w =
     (if length (data w) < 2 then Inr 0
      else
        let (t_now, v_now) = last (data w);
            (t_ref, v_ref) = scan_ref t_now seconds (data w) (hd (data w));
            dt = max (1 / 1000000) (t_now - t_ref)
        in and_then (getitem v_now key) (\<lambda>a.
           and_then (getitem v_ref key) (\<lambda>b. Inr ((a - b) / dt * 60))))"

text \<open>\<^verbatim>\<open>rates_per_min\<close>, the same in both modules: four rates with fixed lookbacks.\<close>

definition rates_per_min :: "RollingWindow \<Rightarrow> py_error + (string \<rightharpoonup> real)" where
  "rates_per_min w =
     and_then (rate_per_min ''heart_rate'' 60 w) (\<lambda>hr.
     and_then (rate_per_min ''bp_systolic'' 120 w) (\<lambda>sys.
     and_then (rate_per_min ''oxygen_saturation'' 60 w) (\<lambda>spo2.
     and_then (rate_per_min ''temperature'' 300 w) (\<lambda>temp.
       Inr [''heart_rate'' \<mapsto> hr, ''bp_systolic'' \<mapsto> sys, ''oxygen_saturation'' \<mapsto> spo2,
            ''temperature'' \<mapsto> temp]))))"

text \<open>
  The reference sample as the specification words it: the first sample, oldest to
  newest, whose age is at least the lookback, and the oldest sample when there is none.
\<close>

definition reference_sample :: "real \<Rightarrow> real \<Rightarrow> (real \<times> vitals) list \<Rightarrow> real \<times> vitals" where
  "reference_sample t_now seconds xs =
     (case find (\<lambda>(t_i, v_i). t_now - t_i \<ge> seconds) xs of
        Some p \<Rightarrow> p
      | None \<Rightarrow> hd xs)"

text \<open>A sequence of calls of \<^verbatim>\<open>push\<close> on one window, first call first.\<close>

fun push_all :: "(vitals \<times> real option \<times> real) list \<Rightarrow> RollingWindow \<Rightarrow> RollingWindow" where
  "push_all [] w = w"
| "push_all ((vitals, t_epoch, now) # calls) w = push_all calls (push vitals t_epoch now w)"

fun be_push_all :: "(real \<times> vitals) list \<Rightarrow> RollingWindow \<Rightarrow> RollingWindow" where
  "be_push_all [] w = w"
| "be_push_all ((t_epoch, vitals) # calls) w = be_push_all calls (be_push t_epoch vitals w)"

section \<open>Inputs of the shape the callers produce\<close>

text \<open>
  The dictionary \<^verbatim>\<open>generate_vitals\<close> returns has exactly these five keys, and
  \<^verbatim>\<open>rates_per_min\<close> returns exactly the four keys of \<open>zero_rates\<close>.
\<close>

definition sample :: "real \<Rightarrow> real \<Rightarrow> real \<Rightarrow> real \<Rightarrow> real \<Rightarrow> vitals" where
  "sample hr sys dia spo2 temp =
     [''heart_rate'' \<mapsto> hr, ''bp_systolic'' \<mapsto> sys, ''bp_diastolic'' \<mapsto> dia,
      ''oxygen_saturation'' \<mapsto> spo2, ''temperature'' \<mapsto> temp]"

definition zero_rates :: "string \<rightharpoonup> real" where
  "zero_rates =
     [''heart_rate'' \<mapsto> 0, ''bp_systolic'' \<mapsto> 0, ''oxygen_saturation'' \<mapsto> 0,
      ''temperature'' \<mapsto> 0]"

text \<open>The invariant of the data model: a yellow limit is crossed before its red limit.\<close>

definition yellow_before_red :: "Thresholds \<Rightarrow> bool" where
  "yellow_before_red th \<longleftrightarrow>
     hr_yellow th < hr_red th \<and> spo2_yellow th > spo2_red th \<and>
     sys_yellow th < sys_red th \<and> dia_yellow th < dia_red th \<and>
     temp_yellow_hi th < temp_red_hi th \<and> temp_yellow_lo th > temp_red_lo th"

section \<open>Supporting lemmas\<close>

subsection \<open>Sequencing and dictionary reads\<close>

lemma and_then_Inr: "and_then (Inr x) f = f x"
  by (simp add: and_then_def)

lemma getitem_Some: "d k = Some x \<Longrightarrow> getitem d k = Inr x"
  by (simp add: getitem_def)

lemma item_ge_Some: "d k = Some x \<Longrightarrow> item_ge d k c = Inr (c \<le> x)"
  by (simp add: item_ge_def getitem_Some and_then_Inr)

lemma item_le_Some: "d k = Some x \<Longrightarrow> item_le d k c = Inr (x \<le> c)"
  by (simp add: item_le_def getitem_Some and_then_Inr)

lemma py_or_Inr: "py_or (Inr a) (Inr b) = Inr (a \<or> b)"
  by (simp add: py_or_def and_then_Inr)

lemma py_and_Inr: "py_and (Inr a) (Inr b) = Inr (a \<and> b)"
  by (simp add: py_and_def and_then_Inr)

lemmas item_simps = and_then_Inr getitem_Some item_ge_Some item_le_Some py_or_Inr py_and_Inr

subsection \<open>What one block does\<close>

lemma reasons_hit: "reasons (hit c r w pts msgs s) = reasons s @ (if c then msgs else [])"
  by (simp add: hit_def)

lemma red_hits_hit1: "red_hits (hit c 1 w pts msgs s) = red_hits s + of_bool c"
  by (simp add: hit_def)

lemma red_hits_hit0: "red_hits (hit c 0 w pts msgs s) = red_hits s"
  by (simp add: hit_def)

lemma warn_hits_hit1: "warn_hits (hit c r 1 pts msgs s) = warn_hits s + of_bool c"
  by (simp add: hit_def)

lemma warn_hits_hit0: "warn_hits (hit c r 0 pts msgs s) = warn_hits s"
  by (simp add: hit_def)

lemma score_hit_of_bool: "score (hit c r w pts msgs s) = score s + pts * of_bool c"
  by (simp add: hit_def)

lemmas hit_simps = red_hits_hit1 red_hits_hit0 warn_hits_hit1 warn_hits_hit0 score_hit_of_bool reasons_hit

lemma red_heart_rate_hit:
  "v ''heart_rate'' = Some hr \<Longrightarrow>
   red_heart_rate v th s = Inr (hit (hr \<ge> hr_red th) 1 0 25 [reason_hr_red hr th] s)"
  by (simp add: red_heart_rate_def item_simps hit_def)

lemma red_oxygen_saturation_hit:
  "v ''oxygen_saturation'' = Some spo2 \<Longrightarrow>
   red_oxygen_saturation v th s =
     Inr (hit (spo2 \<le> spo2_red th) 1 0 30 [reason_spo2_red spo2 th] s)"
  by (simp add: red_oxygen_saturation_def item_simps hit_def)

lemma red_blood_pressure_hit:
  "v ''bp_systolic'' = Some sys \<Longrightarrow> v ''bp_diastolic'' = Some dia \<Longrightarrow>
   red_blood_pressure v th s =
     Inr (hit (sys \<ge> sys_red th \<or> dia \<ge> dia_red th) 1 0 25 [reason_bp_red sys dia th] s)"
  by (simp add: red_blood_pressure_def item_simps hit_def)

lemma red_temperature_hit:
  "v ''temperature'' = Some temp \<Longrightarrow>
   red_temperature v th s =
     Inr (hit (temp \<ge> temp_red_hi th \<or> temp \<le> temp_red_lo th) 1 0 15
            [reason_temp_red temp th] s)"
  by (simp add: red_temperature_def item_simps hit_def)

lemma trend_heart_rate_hit:
  "rates ''heart_rate'' = Some r \<Longrightarrow>
   trend_heart_rate rates s = Inr (hit (r \<ge> 15) 0 0 10 [reason_hr_trend r] s)"
  by (simp add: trend_heart_rate_def item_simps hit_def)

lemma trend_oxygen_saturation_hit:
  "rates ''oxygen_saturation'' = Some r \<Longrightarrow>
   trend_oxygen_saturation rates s = Inr (hit (r \<le> - 2) 0 0 15 [reason_spo2_trend r] s)"
  by (simp add: trend_oxygen_saturation_def item_simps hit_def)

lemma trend_bp_systolic_hit:
  "rates ''bp_systolic'' = Some r \<Longrightarrow>
   trend_bp_systolic rates s = Inr (hit (r \<ge> 10) 0 0 10 [reason_sys_trend r] s)"
  by (simp add: trend_bp_systolic_def item_simps hit_def)

lemma yellow_heart_rate_hit:
  "v ''heart_rate'' = Some hr \<Longrightarrow>
   yellow_heart_rate v th s = Inr (hit (hr \<ge> hr_yellow th) 0 1 8 [reason_hr_yellow hr th] s)"
  by (simp add: yellow_heart_rate_def item_simps hit_def)

lemma be_yellow_heart_rate_hit:
  "v ''heart_rate'' = Some hr \<Longrightarrow>
   be_yellow_heart_rate v th s =
     Inr (hit (hr \<ge> hr_yellow th) 0 1 8
            (if reason_hr_red hr th \<in> set (reasons s) then [] else [reason_hr_yellow hr th]) s)"
  by (simp add: be_yellow_heart_rate_def item_simps hit_def)

lemma yellow_oxygen_saturation_hit:
  "v ''oxygen_saturation'' = Some spo2 \<Longrightarrow>
   yellow_oxygen_saturation v th s =
     Inr (hit (spo2 \<le> spo2_yellow th) 0 1 10 [reason_spo2_yellow spo2 th] s)"
  by (simp add: yellow_oxygen_saturation_def item_simps hit_def)

lemma yellow_blood_pressure_hit:
  "v ''bp_systolic'' = Some sys \<Longrightarrow> v ''bp_diastolic'' = Some dia \<Longrightarrow>
   yellow_blood_pressure v th s =
     Inr (hit (sys \<ge> sys_yellow th \<or> dia \<ge> dia_yellow th) 0 1 8 [reason_bp_yellow sys dia] s)"
  by (simp add: yellow_blood_pressure_def item_simps hit_def)

lemma yellow_temperature_hit:
  "v ''temperature'' = Some temp \<Longrightarrow>
   yellow_temperature v th s =
     Inr (hit (temp \<ge> temp_yellow_hi th \<or> temp \<le> temp_yellow_lo th) 0 1 6
            [reason_temp_yellow temp] s)"
  by (simp add: yellow_temperature_def item_simps hit_def)

lemmas block_hits =
  red_heart_rate_hit red_oxygen_saturation_hit red_blood_pressure_hit red_temperature_hit
  trend_heart_rate_hit trend_oxygen_saturation_hit trend_bp_systolic_hit
  yellow_heart_rate_hit be_yellow_heart_rate_hit yellow_oxygen_saturation_hit
  yellow_blood_pressure_hit yellow_temperature_hit

subsection \<open>The run of the eleven blocks\<close>

lemma early_state_fields:
  "red_hits (early_state th hr spo2 sys dia temp r_hr r_spo2 r_sys) =
     red_count th hr spo2 sys dia temp"
  "warn_hits (early_state th hr spo2 sys dia temp r_hr r_spo2 r_sys) = 0"
  "score (early_state th hr spo2 sys dia temp r_hr r_spo2 r_sys) =
     red_points th hr spo2 sys dia temp + trend_points r_hr r_spo2 r_sys"
  "reasons (early_state th hr spo2 sys dia temp r_hr r_spo2 r_sys) =
     red_reasons th hr spo2 sys dia temp @ trend_reasons r_hr r_spo2 r_sys"
  by (simp_all add: early_state_def hit_simps red_count_def red_points_def trend_points_def
      red_reasons_def trend_reasons_def split del: if_split)

lemma early_run:
  assumes "v ''heart_rate'' = Some hr" "v ''oxygen_saturation'' = Some spo2"
    "v ''bp_systolic'' = Some sys" "v ''bp_diastolic'' = Some dia"
    "v ''temperature'' = Some temp"
    "rates ''heart_rate'' = Some r_hr" "rates ''oxygen_saturation'' = Some r_spo2"
    "rates ''bp_systolic'' = Some r_sys"
  shows "and_then (red_heart_rate v th \<lparr>reasons = [], score = 0, red_hits = 0, warn_hits = 0\<rparr>) (\<lambda>s.
     and_then (red_oxygen_saturation v th s) (\<lambda>s.
     and_then (red_blood_pressure v th s) (\<lambda>s.
     and_then (red_temperature v th s) (\<lambda>s.
     and_then (trend_heart_rate rates s) (\<lambda>s.
     and_then (trend_oxygen_saturation rates s) (\<lambda>s.
     and_then (trend_bp_systolic rates s) k)))))) =
     k (early_state th hr spo2 sys dia temp r_hr r_spo2 r_sys)"
  using assms
  by (simp add: and_then_Inr block_hits early_state_def split del: if_split)

lemma warning_tail_fields:
  "red_hits (hit c4 0 1 p4 m4 (hit c3 0 1 p3 m3 (hit c2 0 1 p2 m2 (hit c1 0 1 p1 m1 s)))) =
     red_hits s"
  "warn_hits (hit c4 0 1 p4 m4 (hit c3 0 1 p3 m3 (hit c2 0 1 p2 m2 (hit c1 0 1 p1 m1 s)))) =
     warn_hits s + of_bool c1 + of_bool c2 + of_bool c3 + of_bool c4"
  "score (hit c4 0 1 p4 m4 (hit c3 0 1 p3 m3 (hit c2 0 1 p2 m2 (hit c1 0 1 p1 m1 s)))) =
     score s + p1 * of_bool c1 + p2 * of_bool c2 + p3 * of_bool c3 + p4 * of_bool c4"
  "reasons (hit c4 0 1 p4 m4 (hit c3 0 1 p3 m3 (hit c2 0 1 p2 m2 (hit c1 0 1 p1 m1 s)))) =
     reasons s @ (if c1 then m1 else []) @ (if c2 then m2 else []) @
     (if c3 then m3 else []) @ (if c4 then m4 else [])"
  by (simp_all add: hit_simps split del: if_split)

lemma checks_run:
  assumes "v ''heart_rate'' = Some hr" "v ''oxygen_saturation'' = Some spo2"
    "v ''bp_systolic'' = Some sys" "v ''bp_diastolic'' = Some dia"
    "v ''temperature'' = Some temp"
    "rates ''heart_rate'' = Some r_hr" "rates ''oxygen_saturation'' = Some r_spo2"
    "rates ''bp_systolic'' = Some r_sys"
  shows "checks v th rates =
     Inr (hit (temp \<ge> temp_yellow_hi th \<or> temp \<le> temp_yellow_lo th) 0 1 6
            [reason_temp_yellow temp]
         (hit (sys \<ge> sys_yellow th \<or> dia \<ge> dia_yellow th) 0 1 8 [reason_bp_yellow sys dia]
         (hit (spo2 \<le> spo2_yellow th) 0 1 10 [reason_spo2_yellow spo2 th]
         (hit (hr \<ge> hr_yellow th) 0 1 8 [reason_hr_yellow hr th]
            (early_state th hr spo2 sys dia temp r_hr r_spo2 r_sys)))))"
  unfolding checks_def early_run [OF assms]
  using assms by (simp add: and_then_Inr block_hits split del: if_split)

lemma be_checks_run:
  assumes "v ''heart_rate'' = Some hr" "v ''oxygen_saturation'' = Some spo2"
    "v ''bp_systolic'' = Some sys" "v ''bp_diastolic'' = Some dia"
    "v ''temperature'' = Some temp"
    "rates ''heart_rate'' = Some r_hr" "rates ''oxygen_saturation'' = Some r_spo2"
    "rates ''bp_systolic'' = Some r_sys"
  shows "be_checks v th rates =
     Inr (hit (temp \<ge> temp_yellow_hi th \<or> temp \<le> temp_yellow_lo th) 0 1 6
            [reason_temp_yellow temp]
         (hit (sys \<ge> sys_yellow th \<or> dia \<ge> dia_yellow th) 0 1 8 [reason_bp_yellow sys dia]
         (hit (spo2 \<le> spo2_yellow th) 0 1 10 [reason_spo2_yellow spo2 th]
         (hit (hr \<ge> hr_yellow th) 0 1 8
            (if reason_hr_red hr th \<in>
                  set (reasons (early_state th hr spo2 sys dia temp r_hr r_spo2 r_sys))
             then [] else [reason_hr_yellow hr th])
            (early_state th hr spo2 sys dia temp r_hr r_spo2 r_sys)))))"
  unfolding be_checks_def early_run [OF assms]
  using assms by (simp add: and_then_Inr block_hits split del: if_split)

lemma checks_total:
  assumes "v ''heart_rate'' = Some hr" "v ''oxygen_saturation'' = Some spo2"
    "v ''bp_systolic'' = Some sys" "v ''bp_diastolic'' = Some dia"
    "v ''temperature'' = Some temp"
    "rates ''heart_rate'' = Some r_hr" "rates ''oxygen_saturation'' = Some r_spo2"
    "rates ''bp_systolic'' = Some r_sys"
  shows "\<exists>s. checks v th rates = Inr s \<and>
           red_hits s = red_count th hr spo2 sys dia temp \<and>
           warn_hits s = warn_count th hr spo2 sys dia temp \<and>
           score s = red_points th hr spo2 sys dia temp + trend_points r_hr r_spo2 r_sys +
                     yellow_points th hr spo2 sys dia temp \<and>
           reasons s = red_reasons th hr spo2 sys dia temp @ trend_reasons r_hr r_spo2 r_sys @
                       (if hr \<ge> hr_yellow th then [reason_hr_yellow hr th] else []) @
                       later_yellow_reasons th spo2 sys dia temp"
  unfolding checks_run [OF assms]
  by (simp add: warning_tail_fields early_state_fields warn_count_def yellow_points_def
      later_yellow_reasons_def split del: if_split)

lemma be_checks_total:
  assumes "v ''heart_rate'' = Some hr" "v ''oxygen_saturation'' = Some spo2"
    "v ''bp_systolic'' = Some sys" "v ''bp_diastolic'' = Some dia"
    "v ''temperature'' = Some temp"
    "rates ''heart_rate'' = Some r_hr" "rates ''oxygen_saturation'' = Some r_spo2"
    "rates ''bp_systolic'' = Some r_sys"
  shows "\<exists>s. be_checks v th rates = Inr s \<and>
           red_hits s = red_count th hr spo2 sys dia temp \<and>
           warn_hits s = warn_count th hr spo2 sys dia temp \<and>
           score s = red_points th hr spo2 sys dia temp + trend_points r_hr r_spo2 r_sys +
                     yellow_points th hr spo2 sys dia temp \<and>
           reasons s = red_reasons th hr spo2 sys dia temp @ trend_reasons r_hr r_spo2 r_sys @
                       (if hr \<ge> hr_yellow th \<and>
                           reason_hr_red hr th \<notin>
                             set (red_reasons th hr spo2 sys dia temp @
                                  trend_reasons r_hr r_spo2 r_sys)
                        then [reason_hr_yellow hr th] else []) @
                       later_yellow_reasons th spo2 sys dia temp"
proof -
  have msgs: "(if c then if m then [] else ys else []) = (if c \<and> \<not> m then ys else [])"
    for c m and ys :: "string list"
    by simp
  show ?thesis
    unfolding be_checks_run [OF assms] early_state_fields(4)
    by (simp add: warning_tail_fields early_state_fields warn_count_def yellow_points_def
        later_yellow_reasons_def msgs split del: if_split)
qed

subsection \<open>Formatted numbers and the red heart-rate string\<close>

lemma dec_digits_hd: "dec_digits n \<noteq> [] \<and> hd (dec_digits n) \<in> set ''0123456789''"
proof (induction n rule: dec_digits.induct)
  case (1 n)
  show ?case
  proof (cases "n < 10")
    case True
    then have "n \<in> {0, 1, 2, 3, 4, 5, 6, 7, 8, 9}" by auto
    then show ?thesis
      by (subst (1 2) dec_digits.simps) (auto simp: digit_char_def)
  next
    case False
    with 1 show ?thesis
      by (subst (1 2) dec_digits.simps) simp
  qed
qed

lemma format_f_hd: "format_f p x \<noteq> [] \<and> hd (format_f p x) \<in> set ''-0123456789''"
proof -
  obtain n where n: "dec_digits n \<noteq> []" "hd (dec_digits n) \<in> set ''0123456789''"
    "\<exists>rest. format_f p x = (if x < 0 then ''-'' else []) @ dec_digits n @ rest"
    using dec_digits_hd by (auto simp: format_f_def Let_def)
  then show ?thesis by (cases "x < 0") (auto simp: hd_append)
qed

lemma reason_hr_red_not_trend: "reason_hr_red hr th \<noteq> reason_hr_trend r"
proof
  assume "reason_hr_red hr th = reason_hr_trend r"
  then have "format_f 0 hr @ '' >= '' @ format_f 0 (hr_red th) = ''rising fast (+'' @ format_f 1 r @ ''/min)''"
    by (simp add: reason_hr_red_def reason_hr_trend_def)
  then have "hd (format_f 0 hr @ '' >= '' @ format_f 0 (hr_red th)) = CHR ''r''"
    by simp
  then have "hd (format_f 0 hr) = CHR ''r''"
    using format_f_hd [of 0 hr] by (simp add: hd_append)
  then show False
    using format_f_hd [of 0 hr] by auto
qed

lemma reason_hr_red_in_earlier:
  "reason_hr_red hr th \<in> set (red_reasons th hr spo2 sys dia temp @ trend_reasons r_hr r_spo2 r_sys)
   \<longleftrightarrow> hr \<ge> hr_red th"
proof -
  have others: "reason_hr_red hr th \<noteq> reason_spo2_red spo2 th"
    "reason_hr_red hr th \<noteq> reason_bp_red sys dia th"
    "reason_hr_red hr th \<noteq> reason_temp_red temp th"
    "reason_hr_red hr th \<noteq> reason_spo2_trend r_spo2"
    "reason_hr_red hr th \<noteq> reason_sys_trend r_sys"
    by (simp_all add: reason_hr_red_def reason_spo2_red_def reason_bp_red_def
        reason_temp_red_def reason_spo2_trend_def reason_sys_trend_def)
  show ?thesis
    using others reason_hr_red_not_trend [of hr th r_hr]
    by (simp add: red_reasons_def trend_reasons_def)
qed

subsection \<open>The level decision\<close>

lemma decide_unfold:
  assumes "sc = max 0 (min 100 (score s))"
  shows "decide s =
     (if red_hits s \<ge> 1 \<and> sc \<ge> 55 then (''red'', reasons s, sc)
      else if red_hits s \<ge> 1 \<or> sc \<ge> 45 \<or> warn_hits s \<ge> 2 then (''orange'', reasons s, sc)
      else if warn_hits s \<ge> 1 \<or> sc \<ge> 20 then (''yellow'', reasons s, sc)
      else (''green'', reasons s, sc))"
  unfolding decide_def Let_def assms [symmetric] by (rule refl)

lemma decide_shape: "decide s = (fst (decide s), reasons s, max 0 (min 100 (score s)))"
proof -
  define c where "c = max 0 (min 100 (score s))"
  show ?thesis
    unfolding c_def [symmetric] decide_unfold [OF c_def] by simp
qed

lemma decide_same_level:
  assumes "red_hits s' = red_hits s" "warn_hits s' = warn_hits s" "score s' = score s"
  shows "fst (decide s') = fst (decide s)"
proof -
  define c where "c = max 0 (min 100 (score s))"
  have c': "c = max 0 (min 100 (score s'))"
    by (simp only: c_def assms(3))
  show ?thesis
    unfolding decide_unfold [OF c_def] decide_unfold [OF c'] assms(1,2) by simp
qed

lemma decide_level:
  assumes "sc = max 0 (min 100 (score s))"
  shows "fst (decide s) = ''red'' \<longleftrightarrow> red_hits s \<ge> 1 \<and> sc \<ge> 55"
    and "fst (decide s) = ''orange'' \<longleftrightarrow>
        \<not> (red_hits s \<ge> 1 \<and> sc \<ge> 55) \<and> (red_hits s \<ge> 1 \<or> sc \<ge> 45 \<or> warn_hits s \<ge> 2)"
    and "fst (decide s) = ''yellow'' \<longleftrightarrow>
        \<not> (red_hits s \<ge> 1 \<and> sc \<ge> 55) \<and> \<not> (red_hits s \<ge> 1 \<or> sc \<ge> 45 \<or> warn_hits s \<ge> 2) \<and>
        (warn_hits s \<ge> 1 \<or> sc \<ge> 20)"
    and "fst (decide s) = ''green'' \<longleftrightarrow>
        \<not> (red_hits s \<ge> 1 \<and> sc \<ge> 55) \<and> \<not> (red_hits s \<ge> 1 \<or> sc \<ge> 45 \<or> warn_hits s \<ge> 2) \<and>
        \<not> (warn_hits s \<ge> 1 \<or> sc \<ge> 20)"
  unfolding decide_unfold [OF assms] by simp_all

lemma decide_same_counts:
  assumes "red_hits s' = red_hits s" "warn_hits s' = warn_hits s" "score s' = score s"
    and "decide s = (lvl, rs, sc)"
  shows "decide s' = (lvl, reasons s', sc)"
proof -
  have "lvl = fst (decide s)" "sc = max 0 (min 100 (score s))"
    using assms(4) decide_shape [of s] by simp_all
  then show ?thesis
    using decide_shape [of s'] decide_same_level [OF assms(1-3)] assms(3) by simp
qed

subsection \<open>Results of the classifiers\<close>

lemma sample_lookup:
  "sample hr sys dia spo2 temp ''heart_rate'' = Some hr"
  "sample hr sys dia spo2 temp ''oxygen_saturation'' = Some spo2"
  "sample hr sys dia spo2 temp ''bp_systolic'' = Some sys"
  "sample hr sys dia spo2 temp ''bp_diastolic'' = Some dia"
  "sample hr sys dia spo2 temp ''temperature'' = Some temp"
  by (simp_all add: sample_def)

lemma zero_rates_lookup:
  "zero_rates ''heart_rate'' = Some 0"
  "zero_rates ''oxygen_saturation'' = Some 0"
  "zero_rates ''bp_systolic'' = Some 0"
  "zero_rates ''temperature'' = Some 0"
  by (simp_all add: zero_rates_def)

lemma classify_level_via_checks:
  "checks v th rates = Inr s \<Longrightarrow>
   classify_level v th rates = Inr (fst (decide s), reasons s, max 0 (min 100 (score s)))"
  unfolding classify_level_def using decide_shape [of s] by (simp add: and_then_Inr)

lemma be_classify_level_via_checks:
  "be_checks v th rates = Inr s \<Longrightarrow>
   be_classify_level v th rates = Inr (fst (decide s), reasons s, max 0 (min 100 (score s)))"
  unfolding be_classify_level_def using decide_shape [of s] by (simp add: and_then_Inr)

lemma classify_level_score:
  assumes "v ''heart_rate'' = Some hr" "v ''oxygen_saturation'' = Some spo2"
    "v ''bp_systolic'' = Some sys" "v ''bp_diastolic'' = Some dia"
    "v ''temperature'' = Some temp"
    "rates ''heart_rate'' = Some r_hr" "rates ''oxygen_saturation'' = Some r_spo2"
    "rates ''bp_systolic'' = Some r_sys"
  shows "\<exists>lvl rs. classify_level v th rates =
           Inr (lvl, rs, max 0 (min 100 (red_points th hr spo2 sys dia temp +
                  trend_points r_hr r_spo2 r_sys + yellow_points th hr spo2 sys dia temp)))"
    and "\<exists>lvl rs. be_classify_level v th rates =
           Inr (lvl, rs, max 0 (min 100 (red_points th hr spo2 sys dia temp +
                  trend_points r_hr r_spo2 r_sys + yellow_points th hr spo2 sys dia temp)))"
proof -
  obtain s where s: "checks v th rates = Inr s"
    "score s = red_points th hr spo2 sys dia temp + trend_points r_hr r_spo2 r_sys +
               yellow_points th hr spo2 sys dia temp"
    using checks_total [OF assms, of th] by blast
  show "\<exists>lvl rs. classify_level v th rates =
           Inr (lvl, rs, max 0 (min 100 (red_points th hr spo2 sys dia temp +
                  trend_points r_hr r_spo2 r_sys + yellow_points th hr spo2 sys dia temp)))"
    using classify_level_via_checks [OF s(1)] unfolding s(2) by blast
  obtain s' where s': "be_checks v th rates = Inr s'"
    "score s' = red_points th hr spo2 sys dia temp + trend_points r_hr r_spo2 r_sys +
               yellow_points th hr spo2 sys dia temp"
    using be_checks_total [OF assms, of th] by blast
  show "\<exists>lvl rs. be_classify_level v th rates =
           Inr (lvl, rs, max 0 (min 100 (red_points th hr spo2 sys dia temp +
                  trend_points r_hr r_spo2 r_sys + yellow_points th hr spo2 sys dia temp)))"
    using be_classify_level_via_checks [OF s'(1)] unfolding s'(2) by blast
qed

lemma points_mono_heart_rate:
  assumes "hr \<le> hr'"
  shows "red_points th hr spo2 sys dia temp \<le> red_points th hr' spo2 sys dia temp"
    and "yellow_points th hr spo2 sys dia temp \<le> yellow_points th hr' spo2 sys dia temp"
  using assms by (simp_all add: red_points_def yellow_points_def of_bool_def)

subsection \<open>A classifier that returns has read every key\<close>

lemma and_then_Inr_iff: "and_then m f = Inr y \<longleftrightarrow> (\<exists>x. m = Inr x \<and> f x = Inr y)"
  by (cases m) (simp_all add: and_then_def)

lemma getitem_Inr_iff: "getitem d k = Inr x \<longleftrightarrow> d k = Some x"
  by (simp add: getitem_def split: option.splits)

lemma item_ge_InrD: "item_ge d k c = Inr b \<Longrightarrow> \<exists>x. d k = Some x"
  by (auto simp: item_ge_def and_then_Inr_iff getitem_Inr_iff)

lemma item_le_InrD: "item_le d k c = Inr b \<Longrightarrow> \<exists>x. d k = Some x"
  by (auto simp: item_le_def and_then_Inr_iff getitem_Inr_iff)

lemma red_heart_rate_key: "red_heart_rate v th s = Inr s' \<Longrightarrow> \<exists>x. v ''heart_rate'' = Some x"
  by (auto simp: red_heart_rate_def and_then_Inr_iff dest: item_ge_InrD)

lemma red_oxygen_saturation_key:
  "red_oxygen_saturation v th s = Inr s' \<Longrightarrow> \<exists>x. v ''oxygen_saturation'' = Some x"
  by (auto simp: red_oxygen_saturation_def and_then_Inr_iff dest: item_le_InrD)

lemma red_blood_pressure_keys:
  assumes "red_blood_pressure v th s = Inr s'"
  shows "\<exists>x. v ''bp_systolic'' = Some x" and "\<exists>x. v ''bp_diastolic'' = Some x"
proof -
  obtain c where c: "py_or (item_ge v ''bp_systolic'' (sys_red th))
      (item_ge v ''bp_diastolic'' (dia_red th)) = Inr c"
    and rest: "(if c then
         and_then (getitem v ''bp_systolic'') (\<lambda>sys.
         and_then (getitem v ''bp_diastolic'') (\<lambda>dia.
           Inr (s\<lparr>red_hits := red_hits s + 1, score := score s + 25,
                   reasons := reasons s @ [reason_bp_red sys dia th]\<rparr>)))
       else Inr s) = Inr s'"
    using assms unfolding red_blood_pressure_def and_then_Inr_iff by blast
  from c obtain a where a: "item_ge v ''bp_systolic'' (sys_red th) = Inr a"
    and b: "(if a then Inr True else item_ge v ''bp_diastolic'' (dia_red th)) = Inr c"
    unfolding py_or_def and_then_Inr_iff by blast
  show "\<exists>x. v ''bp_systolic'' = Some x"
    using a by (rule item_ge_InrD)
  show "\<exists>x. v ''bp_diastolic'' = Some x"
  proof (cases c)
    case True
    with rest show ?thesis
      by (auto simp: and_then_Inr_iff getitem_Inr_iff)
  next
    case False
    with b have "item_ge v ''bp_diastolic'' (dia_red th) = Inr c"
      by (cases a) simp_all
    then show ?thesis by (rule item_ge_InrD)
  qed
qed

lemma red_temperature_key:
  assumes "red_temperature v th s = Inr s'"
  shows "\<exists>x. v ''temperature'' = Some x"
proof -
  obtain c where "py_or (item_ge v ''temperature'' (temp_red_hi th))
      (item_le v ''temperature'' (temp_red_lo th)) = Inr c"
    using assms unfolding red_temperature_def and_then_Inr_iff by blast
  then obtain a where "item_ge v ''temperature'' (temp_red_hi th) = Inr a"
    unfolding py_or_def and_then_Inr_iff by blast
  then show ?thesis by (rule item_ge_InrD)
qed

lemma trend_heart_rate_key:
  "trend_heart_rate rates s = Inr s' \<Longrightarrow> \<exists>x. rates ''heart_rate'' = Some x"
  by (auto simp: trend_heart_rate_def and_then_Inr_iff dest: item_ge_InrD)

lemma trend_oxygen_saturation_key:
  "trend_oxygen_saturation rates s = Inr s' \<Longrightarrow> \<exists>x. rates ''oxygen_saturation'' = Some x"
  by (auto simp: trend_oxygen_saturation_def and_then_Inr_iff dest: item_le_InrD)

lemma trend_bp_systolic_key:
  "trend_bp_systolic rates s = Inr s' \<Longrightarrow> \<exists>x. rates ''bp_systolic'' = Some x"
  by (auto simp: trend_bp_systolic_def and_then_Inr_iff dest: item_ge_InrD)

lemma early_keys:
  assumes "and_then (red_heart_rate v th s0) (\<lambda>s.
     and_then (red_oxygen_saturation v th s) (\<lambda>s.
     and_then (red_blood_pressure v th s) (\<lambda>s.
     and_then (red_temperature v th s) (\<lambda>s.
     and_then (trend_heart_rate rates s) (\<lambda>s.
     and_then (trend_oxygen_saturation rates s) (\<lambda>s.
     and_then (trend_bp_systolic rates s) k)))))) = Inr s'"
  shows "\<exists>hr spo2 sys dia temp r_hr r_spo2 r_sys.
     v ''heart_rate'' = Some hr \<and> v ''oxygen_saturation'' = Some spo2 \<and>
     v ''bp_systolic'' = Some sys \<and> v ''bp_diastolic'' = Some dia \<and>
     v ''temperature'' = Some temp \<and>
     rates ''heart_rate'' = Some r_hr \<and> rates ''oxygen_saturation'' = Some r_spo2 \<and>
     rates ''bp_systolic'' = Some r_sys"
proof -
  from assms obtain s1 s2 s3 s4 s5 s6 s7 where
    "red_heart_rate v th s0 = Inr s1" "red_oxygen_saturation v th s1 = Inr s2"
    "red_blood_pressure v th s2 = Inr s3" "red_temperature v th s3 = Inr s4"
    "trend_heart_rate rates s4 = Inr s5" "trend_oxygen_saturation rates s5 = Inr s6"
    "trend_bp_systolic rates s6 = Inr s7"
    unfolding and_then_Inr_iff by blast
  then show ?thesis
    using red_heart_rate_key red_oxygen_saturation_key red_blood_pressure_keys
      red_temperature_key trend_heart_rate_key trend_oxygen_saturation_key
      trend_bp_systolic_key
    by meson
qed

lemma checks_keys:
  assumes "checks v th rates = Inr s"
  shows "\<exists>hr spo2 sys dia temp r_hr r_spo2 r_sys.
     v ''heart_rate'' = Some hr \<and> v ''oxygen_saturation'' = Some spo2 \<and>
     v ''bp_systolic'' = Some sys \<and> v ''bp_diastolic'' = Some dia \<and>
     v ''temperature'' = Some temp \<and>
     rates ''heart_rate'' = Some r_hr \<and> rates ''oxygen_saturation'' = Some r_spo2 \<and>
     rates ''bp_systolic'' = Some r_sys"
  using assms unfolding checks_def by (rule early_keys)

lemma be_checks_keys:
  assumes "be_checks v th rates = Inr s"
  shows "\<exists>hr spo2 sys dia temp r_hr r_spo2 r_sys.
     v ''heart_rate'' = Some hr \<and> v ''oxygen_saturation'' = Some spo2 \<and>
     v ''bp_systolic'' = Some sys \<and> v ''bp_diastolic'' = Some dia \<and>
     v ''temperature'' = Some temp \<and>
     rates ''heart_rate'' = Some r_hr \<and> rates ''oxygen_saturation'' = Some r_spo2 \<and>
     rates ''bp_systolic'' = Some r_sys"
  using assms unfolding be_checks_def by (rule early_keys)

lemma classify_level_returns_iff:
  "(\<exists>r. classify_level v th rates = Inr r) \<longleftrightarrow>
     {''heart_rate'', ''oxygen_saturation'', ''bp_systolic'', ''bp_diastolic'',
      ''temperature''} \<subseteq> dom v \<and>
     {''heart_rate'', ''oxygen_saturation'', ''bp_systolic''} \<subseteq> dom rates"
proof
  assume "\<exists>r. classify_level v th rates = Inr r"
  then obtain s where "checks v th rates = Inr s"
    unfolding classify_level_def and_then_Inr_iff by blast
  from checks_keys [OF this] show
    "{''heart_rate'', ''oxygen_saturation'', ''bp_systolic'', ''bp_diastolic'',
      ''temperature''} \<subseteq> dom v \<and>
     {''heart_rate'', ''oxygen_saturation'', ''bp_systolic''} \<subseteq> dom rates"
    by auto
next
  assume "{''heart_rate'', ''oxygen_saturation'', ''bp_systolic'', ''bp_diastolic'',
      ''temperature''} \<subseteq> dom v \<and>
     {''heart_rate'', ''oxygen_saturation'', ''bp_systolic''} \<subseteq> dom rates"
  then obtain hr spo2 sys dia temp r_hr r_spo2 r_sys where
    "v ''heart_rate'' = Some hr" "v ''oxygen_saturation'' = Some spo2"
    "v ''bp_systolic'' = Some sys" "v ''bp_diastolic'' = Some dia"
    "v ''temperature'' = Some temp"
    "rates ''heart_rate'' = Some r_hr" "rates ''oxygen_saturation'' = Some r_spo2"
    "rates ''bp_systolic'' = Some r_sys"
    by (auto simp: dom_def)
  from classify_level_score(1) [OF this] show "\<exists>r. classify_level v th rates = Inr r"
    by blast
qed

lemma be_classify_level_returns_iff:
  "(\<exists>r. be_classify_level v th rates = Inr r) \<longleftrightarrow>
     {''heart_rate'', ''oxygen_saturation'', ''bp_systolic'', ''bp_diastolic'',
      ''temperature''} \<subseteq> dom v \<and>
     {''heart_rate'', ''oxygen_saturation'', ''bp_systolic''} \<subseteq> dom rates"
proof
  assume "\<exists>r. be_classify_level v th rates = Inr r"
  then obtain s where "be_checks v th rates = Inr s"
    unfolding be_classify_level_def and_then_Inr_iff by blast
  from be_checks_keys [OF this] show
    "{''heart_rate'', ''oxygen_saturation'', ''bp_systolic'', ''bp_diastolic'',
      ''temperature''} \<subseteq> dom v \<and>
     {''heart_rate'', ''oxygen_saturation'', ''bp_systolic''} \<subseteq> dom rates"
    by auto
next
  assume "{''heart_rate'', ''oxygen_saturation'', ''bp_systolic'', ''bp_diastolic'',
      ''temperature''} \<subseteq> dom v \<and>
     {''heart_rate'', ''oxygen_saturation'', ''bp_systolic''} \<subseteq> dom rates"
  then obtain hr spo2 sys dia temp r_hr r_spo2 r_sys where
    "v ''heart_rate'' = Some hr" "v ''oxygen_saturation'' = Some spo2"
    "v ''bp_systolic'' = Some sys" "v ''bp_diastolic'' = Some dia"
    "v ''temperature'' = Some temp"
    "rates ''heart_rate'' = Some r_hr" "rates ''oxygen_saturation'' = Some r_spo2"
    "rates ''bp_systolic'' = Some r_sys"
    by (auto simp: dom_def)
  from classify_level_score(2) [OF this] show "\<exists>r. be_classify_level v th rates = Inr r"
    by blast
qed

subsection \<open>No red hit and no warning hit\<close>

lemma red_count_zero:
  assumes "red_count th hr spo2 sys dia temp = 0"
  shows "red_points th hr spo2 sys dia temp = 0" and "red_reasons th hr spo2 sys dia temp = []"
  using assms
  by (simp_all add: red_count_def red_points_def red_reasons_def of_bool_def split: if_splits)

lemma warn_count_zero:
  assumes "warn_count th hr spo2 sys dia temp = 0"
  shows "yellow_points th hr spo2 sys dia temp = 0" and "\<not> hr \<ge> hr_yellow th"
    and "later_yellow_reasons th spo2 sys dia temp = []"
  using assms
  by (simp_all add: warn_count_def yellow_points_def later_yellow_reasons_def of_bool_def
      split: if_splits)

lemma trend_points_bounds: "0 \<le> trend_points a b c" "trend_points a b c \<le> 35"
  by (simp_all add: trend_points_def of_bool_def)

lemma decide_no_hits:
  assumes "red_hits s = 0" "warn_hits s = 0" "0 \<le> score s" "score s \<le> 35"
  shows "decide s = (if score s \<ge> 20 then ''yellow'' else ''green'', reasons s, score s)"
proof -
  have sc: "score s = max 0 (min 100 (score s))"
    using assms(3,4) by simp
  show ?thesis
    unfolding decide_unfold [OF sc] assms(1,2) using assms(4) by simp
qed

subsection \<open>Evaluation on concrete inputs\<close>

lemmas python_simps =
  getitem_def and_then_def item_ge_def item_le_def py_or_def py_and_def
  format_f_def round_half_even_def dec_digits.simps digit_char_def

lemmas reason_defs =
  reason_hr_red_def reason_spo2_red_def reason_bp_red_def reason_temp_red_def
  reason_hr_trend_def reason_spo2_trend_def reason_sys_trend_def
  reason_hr_yellow_def reason_spo2_yellow_def reason_bp_yellow_def reason_temp_yellow_def

lemmas block_defs =
  red_heart_rate_def red_oxygen_saturation_def red_blood_pressure_def red_temperature_def
  trend_heart_rate_def trend_oxygen_saturation_def trend_bp_systolic_def
  yellow_heart_rate_def be_yellow_heart_rate_def yellow_oxygen_saturation_def
  yellow_blood_pressure_def yellow_temperature_def

subsection \<open>Outcome inference\<close>

lemma infer_outcomes_fired:
  assumes "v ''heart_rate'' = Some hr" "v ''oxygen_saturation'' = Some spo2"
    "v ''bp_systolic'' = Some sys" "v ''bp_diastolic'' = Some dia"
    "v ''temperature'' = Some temp"
  shows "infer_outcomes v level rs =
     Inr (fired_outcomes hr sys dia spo2 temp level rs @
          (if fired_outcomes hr sys dia spo2 temp level rs = [] \<and>
              (level = ''orange'' \<or> level = ''red'')
           then [fallback_outcome rs] else []))"
  using assms
  by (simp add: infer_outcomes_def fired_outcomes_def item_simps Let_def)

lemma be_infer_outcomes_fired:
  assumes "v ''heart_rate'' = Some hr" "v ''oxygen_saturation'' = Some spo2"
    "v ''bp_systolic'' = Some sys" "v ''bp_diastolic'' = Some dia"
    "v ''temperature'' = Some temp"
  shows "be_infer_outcomes v level rs =
     Inr (be_fired_outcomes hr sys dia spo2 temp level rs @
          (if be_fired_outcomes hr sys dia spo2 temp level rs = [] \<and>
              (level = ''orange'' \<or> level = ''red'')
           then [be_fallback_outcome rs] else []))"
  using assms
  by (simp add: be_infer_outcomes_def be_fired_outcomes_def item_simps Let_def)

lemmas outcome_defs =
  cardiac_outcome_def stroke_outcome_def respiratory_outcome_def sepsis_outcome_def
  fallback_outcome_def be_cardiac_outcome_def be_stroke_outcome_def
  be_respiratory_outcome_def be_sepsis_outcome_def be_fallback_outcome_def

lemma fired_outcomes_member:
  "cardiac_outcome level rs \<in> set (fired_outcomes hr sys dia spo2 temp level rs) \<longleftrightarrow>
     hr \<ge> 130 \<and> (sys \<ge> 170 \<or> spo2 \<le> 92)"
  "stroke_outcome level rs \<in> set (fired_outcomes hr sys dia spo2 temp level rs) \<longleftrightarrow>
     sys \<ge> 180 \<or> dia \<ge> 120"
  "respiratory_outcome level rs \<in> set (fired_outcomes hr sys dia spo2 temp level rs) \<longleftrightarrow>
     spo2 \<le> 90"
  "sepsis_outcome level rs \<in> set (fired_outcomes hr sys dia spo2 temp level rs) \<longleftrightarrow>
     temp \<ge> 38.5 \<and> hr \<ge> 120"
  "fallback_outcome rs \<notin> set (fired_outcomes hr sys dia spo2 temp level rs)"
  by (simp_all add: fired_outcomes_def outcome_defs)

lemma fired_outcomes_because:
  "\<forall>x \<in> set (fired_outcomes hr sys dia spo2 temp level rs). length (because x) \<le> 3"
proof -
  have each: "length (because (cardiac_outcome level rs)) \<le> 3"
    "length (because (stroke_outcome level rs)) \<le> 3"
    "length (because (respiratory_outcome level rs)) \<le> 3"
    "length (because (sepsis_outcome level rs)) \<le> 3"
    by (simp_all add: outcome_defs)
  have "set (fired_outcomes hr sys dia spo2 temp level rs) \<subseteq>
      {cardiac_outcome level rs, stroke_outcome level rs, respiratory_outcome level rs,
       sepsis_outcome level rs}"
    by (auto simp: fired_outcomes_def split: if_splits)
  then show ?thesis
    using each by auto
qed

lemma be_fired_outcomes_same:
  "map name (be_fired_outcomes hr sys dia spo2 temp level rs) =
     map name (fired_outcomes hr sys dia spo2 temp level rs)"
  "map probability (be_fired_outcomes hr sys dia spo2 temp level rs) =
     map probability (fired_outcomes hr sys dia spo2 temp level rs)"
  "map because (be_fired_outcomes hr sys dia spo2 temp level rs) =
     map because (fired_outcomes hr sys dia spo2 temp level rs)"
  "be_fired_outcomes hr sys dia spo2 temp level rs = [] \<longleftrightarrow>
     fired_outcomes hr sys dia spo2 temp level rs = []"
  by (simp_all add: fired_outcomes_def be_fired_outcomes_def outcome_defs)

subsection \<open>The reference sample of a rate\<close>

lemma scan_ref_find:
  "scan_ref t_now seconds xs ref =
     (case find (\<lambda>(t_i, v_i). t_now - t_i \<ge> seconds) xs of Some p \<Rightarrow> p | None \<Rightarrow> ref)"
  by (induction xs) auto

lemma scan_ref_reference:
  "scan_ref t_now seconds xs (hd xs) = reference_sample t_now seconds xs"
  by (simp add: scan_ref_find reference_sample_def)

lemma reference_sample_index:
  assumes "xs \<noteq> []"
  shows "\<exists>i < length xs. reference_sample t_now seconds xs = xs ! i \<and>
     (\<forall>j < i. t_now - fst (xs ! j) < seconds) \<and>
     (t_now - fst (xs ! i) \<ge> seconds \<or>
      i = 0 \<and> (\<forall>j < length xs. t_now - fst (xs ! j) < seconds))"
proof (cases "find (\<lambda>(t_i, v_i). t_now - t_i \<ge> seconds) xs")
  case None
  then have "\<forall>p \<in> set xs. t_now - fst p < seconds"
    by (auto simp: find_None_iff)
  then have "\<forall>j < length xs. t_now - fst (xs ! j) < seconds"
    by simp
  moreover have "reference_sample t_now seconds xs = xs ! 0"
    using None assms by (simp add: reference_sample_def hd_conv_nth)
  ultimately show ?thesis
    using assms by (intro exI [of _ 0]) simp
next
  case (Some p)
  then obtain i where i: "i < length xs" "t_now - fst (xs ! i) \<ge> seconds" "p = xs ! i"
    "\<forall>j < i. \<not> t_now - fst (xs ! j) \<ge> seconds"
    by (auto simp: find_Some_iff split_beta)
  moreover have "reference_sample t_now seconds xs = p"
    using Some by (simp add: reference_sample_def)
  ultimately show ?thesis
    by (intro exI [of _ i]) (simp add: not_le)
qed

lemma rate_per_min_short: "length (data w) < 2 \<Longrightarrow> rate_per_min key seconds w = Inr 0"
  by (simp add: rate_per_min_def)

lemma be_rate_eq: "be_rate key seconds w = rate_per_min key seconds w"
  by (simp add: be_rate_def rate_per_min_def)

lemma rate_per_min_long:
  assumes "2 \<le> length (data w)" "last (data w) = (t_now, v_now)"
    "reference_sample t_now seconds (data w) = (t_ref, v_ref)"
  shows "rate_per_min key seconds w =
     and_then (getitem v_now key) (\<lambda>a.
     and_then (getitem v_ref key) (\<lambda>b.
       Inr ((a - b) / max (1 / 1000000) (t_now - t_ref) * 60)))"
  using assms by (simp add: rate_per_min_def scan_ref_reference Let_def)

lemma rates_per_min_single: "length (data w) < 2 \<Longrightarrow> rates_per_min w = Inr zero_rates"
  by (simp add: rates_per_min_def rate_per_min_short and_then_Inr zero_rates_def)

subsection \<open>The bounded buffer\<close>

lemma deque_append_history:
  "deque_append n (drop (length ys - n) ys) x = drop (length (ys @ [x]) - n) (ys @ [x])"
proof (cases "length ys < n")
  case True
  then show ?thesis by (simp add: deque_append_def)
next
  case False
  show ?thesis
  proof (cases "n = 0")
    case True
    then show ?thesis by (simp add: deque_append_def)
  next
    case n: False
    let ?k = "length ys - n"
    have k: "?k < length ys" "Suc (length ys) - n = Suc ?k"
      using False n by simp_all
    then have nonempty: "drop ?k ys \<noteq> []"
      by simp
    have "deque_append n (drop ?k ys) x = tl (drop ?k ys @ [x])"
      using False by (simp add: deque_append_def)
    also have "\<dots> = tl (drop ?k ys) @ [x]"
      using nonempty by simp
    also have "\<dots> = drop (Suc ?k) ys @ [x]"
      by (simp add: drop_Suc tl_drop)
    also have "\<dots> = drop (length (ys @ [x]) - n) (ys @ [x])"
      using k by simp
    finally show ?thesis .
  qed
qed

lemma push_all_history:
  assumes "data w = drop (length ys - maxlen w) ys"
  shows "maxlen (push_all calls w) = maxlen w \<and>
     data (push_all calls w) =
       drop (length ys + length calls - maxlen w)
         (ys @ map (\<lambda>(vitals, t_epoch, now). (stamp t_epoch now, vitals)) calls)"
  using assms
proof (induction calls arbitrary: w ys)
  case Nil
  then show ?case by simp
next
  case (Cons c calls)
  obtain vitals t_epoch now where c: "c = (vitals, t_epoch, now)"
    by (cases c)
  let ?w = "push vitals t_epoch now w"
  have maxlen': "maxlen ?w = maxlen w"
    by (simp add: push_def)
  have data': "data ?w = drop (length (ys @ [(stamp t_epoch now, vitals)]) - maxlen ?w)
      (ys @ [(stamp t_epoch now, vitals)])"
    unfolding maxlen' using deque_append_history [of "maxlen w" ys "(a, b)" for a b]
    by (simp add: push_def Cons.prems)
  show ?case
    using Cons.IH [OF data'] by (simp add: c maxlen')
qed

lemma be_push_all_history:
  assumes "data w = drop (length ys - maxlen w) ys"
  shows "maxlen (be_push_all calls w) = maxlen w \<and>
     data (be_push_all calls w) = drop (length ys + length calls - maxlen w) (ys @ calls)"
  using assms
proof (induction calls arbitrary: w ys)
  case Nil
  then show ?case by simp
next
  case (Cons c calls)
  obtain t_epoch vitals where c: "c = (t_epoch, vitals)"
    by (cases c)
  let ?w = "be_push t_epoch vitals w"
  have maxlen': "maxlen ?w = maxlen w"
    by (simp add: be_push_def)
  have data': "data ?w = drop (length (ys @ [(t_epoch, vitals)]) - maxlen ?w)
      (ys @ [(t_epoch, vitals)])"
    unfolding maxlen' using deque_append_history [of "maxlen w" ys "(a, b)" for a b]
    by (simp add: be_push_def Cons.prems)
  show ?case
    using Cons.IH [OF data'] by (simp add: c maxlen')
qed

lemma push_all_fresh:
  assumes "data w = []"
  shows "maxlen (push_all calls w) = maxlen w"
    and "data (push_all calls w) =
       drop (length calls - maxlen w)
         (map (\<lambda>(vitals, t_epoch, now). (stamp t_epoch now, vitals)) calls)"
  using push_all_history [of w "[]" calls] assms by simp_all

lemma be_push_all_fresh:
  assumes "data w = []"
  shows "maxlen (be_push_all calls w) = maxlen w"
    and "data (be_push_all calls w) = drop (length calls - maxlen w) calls"
  using be_push_all_history [of w "[]" calls] assms by simp_all

lemma RollingWindow_init_Inr:
  "RollingWindow_init n = Inr w \<longleftrightarrow> 0 \<le> n \<and> w = \<lparr>maxlen = nat n, data = []\<rparr>"
  by (auto simp: RollingWindow_init_def)

lemma deque_append_subset: "set (deque_append n xs x) \<subseteq> insert x (set xs)"
  by (auto simp: deque_append_def Let_def dest: list.set_sel(2) [rotated])

lemma last_deque_append: "0 < n \<Longrightarrow> last (deque_append n xs x) = x"
  by (cases xs) (auto simp: deque_append_def Let_def)

lemma push_all_stamps:
  assumes "\<forall>e \<in> set (data w). fst e \<noteq> 0" "\<forall>(vitals, t_epoch, now) \<in> set calls. now \<noteq> 0"
  shows "\<forall>e \<in> set (data (push_all calls w)). fst e \<noteq> 0"
  using assms
proof (induction calls arbitrary: w)
  case Nil
  then show ?case by simp
next
  case (Cons c calls)
  obtain vitals t_epoch now where c: "c = (vitals, t_epoch, now)"
    by (cases c)
  have now: "now \<noteq> 0"
    using Cons.prems(2) c by simp
  then have "stamp t_epoch now \<noteq> 0"
    by (simp add: stamp_def split: option.splits)
  then have "\<forall>e \<in> set (data (push vitals t_epoch now w)). fst e \<noteq> 0"
    using Cons.prems(1) deque_append_subset [of "maxlen w" "data w" "(stamp t_epoch now, vitals)"]
    by (auto simp: push_def)
  then show ?case
    using Cons.IH [of "push vitals t_epoch now w"] Cons.prems(2) by (simp add: c)
qed

section \<open>Results\<close>

text \<open>
  Claim C1. For vitals, thresholds and rates whose dictionary entries are present, both
  classifiers return. The level is \<open>red\<close> exactly when \<open>red_hits \<ge> 1\<close> and the clamped
  score is at least 55; otherwise it is \<open>orange\<close> exactly when \<open>red_hits \<ge> 1\<close> or the
  score is at least 45 or \<open>warn_hits \<ge> 2\<close>; otherwise \<open>yellow\<close> exactly when
  \<open>warn_hits \<ge> 1\<close> or the score is at least 20; otherwise \<open>green\<close>. So red is reached
  only through the first rule, and one red hit with a score below 55 gives orange.
  Here \<open>red_hits\<close> and \<open>warn_hits\<close> are the counters of the source, which count the
  red and the warning checks that hold, and the score returned is the raw sum clamped
  to the interval from 0 to 100.
\<close>

theorem classify_level_priority:
  assumes "v ''heart_rate'' = Some hr" "v ''oxygen_saturation'' = Some spo2"
    "v ''bp_systolic'' = Some sys" "v ''bp_diastolic'' = Some dia"
    "v ''temperature'' = Some temp"
    "rates ''heart_rate'' = Some r_hr" "rates ''oxygen_saturation'' = Some r_spo2"
    "rates ''bp_systolic'' = Some r_sys"
  shows "\<exists>s s' lvl sc.
     checks v th rates = Inr s \<and> be_checks v th rates = Inr s' \<and>
     red_hits s = red_count th hr spo2 sys dia temp \<and> red_hits s' = red_hits s \<and>
     warn_hits s = warn_count th hr spo2 sys dia temp \<and> warn_hits s' = warn_hits s \<and>
     score s = red_points th hr spo2 sys dia temp + trend_points r_hr r_spo2 r_sys +
               yellow_points th hr spo2 sys dia temp \<and> score s' = score s \<and>
     sc = max 0 (min 100 (score s)) \<and>
     classify_level v th rates = Inr (lvl, reasons s, sc) \<and>
     be_classify_level v th rates = Inr (lvl, reasons s', sc) \<and>
     (lvl = ''red'' \<longleftrightarrow> red_hits s \<ge> 1 \<and> sc \<ge> 55) \<and>
     (lvl = ''orange'' \<longleftrightarrow>
        \<not> (red_hits s \<ge> 1 \<and> sc \<ge> 55) \<and> (red_hits s \<ge> 1 \<or> sc \<ge> 45 \<or> warn_hits s \<ge> 2)) \<and>
     (lvl = ''yellow'' \<longleftrightarrow>
        \<not> (red_hits s \<ge> 1 \<and> sc \<ge> 55) \<and> \<not> (red_hits s \<ge> 1 \<or> sc \<ge> 45 \<or> warn_hits s \<ge> 2) \<and>
        (warn_hits s \<ge> 1 \<or> sc \<ge> 20)) \<and>
     (lvl = ''green'' \<longleftrightarrow>
        \<not> (red_hits s \<ge> 1 \<and> sc \<ge> 55) \<and> \<not> (red_hits s \<ge> 1 \<or> sc \<ge> 45 \<or> warn_hits s \<ge> 2) \<and>
        \<not> (warn_hits s \<ge> 1 \<or> sc \<ge> 20)) \<and>
     (red_hits s = 1 \<and> sc < 55 \<longrightarrow> lvl = ''orange'')"
proof -
  obtain s where s: "checks v th rates = Inr s"
    "red_hits s = red_count th hr spo2 sys dia temp"
    "warn_hits s = warn_count th hr spo2 sys dia temp"
    "score s = red_points th hr spo2 sys dia temp + trend_points r_hr r_spo2 r_sys +
               yellow_points th hr spo2 sys dia temp"
    using checks_total [OF assms, of th] by blast
  obtain s' where s': "be_checks v th rates = Inr s'"
    "red_hits s' = red_count th hr spo2 sys dia temp"
    "warn_hits s' = warn_count th hr spo2 sys dia temp"
    "score s' = red_points th hr spo2 sys dia temp + trend_points r_hr r_spo2 r_sys +
               yellow_points th hr spo2 sys dia temp"
    using be_checks_total [OF assms, of th] by blast
  define sc where "sc = max 0 (min 100 (score s))"
  define lvl where "lvl = fst (decide s)"
  have lvl: "decide s = (lvl, reasons s, sc)"
    unfolding lvl_def sc_def by (rule decide_shape)
  note level = decide_level [OF sc_def, folded lvl_def]
  have red: "lvl = ''red'' \<longleftrightarrow> red_hits s \<ge> 1 \<and> sc \<ge> 55"
    by (rule level(1))
  have orange: "lvl = ''orange'' \<longleftrightarrow>
        \<not> (red_hits s \<ge> 1 \<and> sc \<ge> 55) \<and> (red_hits s \<ge> 1 \<or> sc \<ge> 45 \<or> warn_hits s \<ge> 2)"
    by (rule level(2))
  have yellow: "lvl = ''yellow'' \<longleftrightarrow>
        \<not> (red_hits s \<ge> 1 \<and> sc \<ge> 55) \<and> \<not> (red_hits s \<ge> 1 \<or> sc \<ge> 45 \<or> warn_hits s \<ge> 2) \<and>
        (warn_hits s \<ge> 1 \<or> sc \<ge> 20)"
    by (rule level(3))
  have green: "lvl = ''green'' \<longleftrightarrow>
        \<not> (red_hits s \<ge> 1 \<and> sc \<ge> 55) \<and> \<not> (red_hits s \<ge> 1 \<or> sc \<ge> 45 \<or> warn_hits s \<ge> 2) \<and>
        \<not> (warn_hits s \<ge> 1 \<or> sc \<ge> 20)"
    by (rule level(4))
  have counts: "red_hits s' = red_hits s" "warn_hits s' = warn_hits s" "score s' = score s"
    by (simp_all only: s s')
  have same: "decide s' = (lvl, reasons s', sc)"
    by (rule decide_same_counts [OF counts lvl])
  have root: "classify_level v th rates = Inr (lvl, reasons s, sc)"
    by (simp only: classify_level_def s(1) and_then_Inr lvl)
  have backend: "be_classify_level v th rates = Inr (lvl, reasons s', sc)"
    by (simp only: be_classify_level_def s'(1) and_then_Inr same)
  have single: "red_hits s = 1 \<and> sc < 55 \<longrightarrow> lvl = ''orange''"
    unfolding orange by simp
  show ?thesis
    by (rule exI [of _ s], rule exI [of _ s'], rule exI [of _ lvl], rule exI [of _ sc])
      (intro conjI; fact)
qed

theorem classify_level_priority_witness:
  "\<exists>rs rs'.
     classify_level (sample 80 120 80 97 (79 / 2)) (patient_thresholds ''normal'') zero_rates =
       Inr (''orange'', rs, 21) \<and>
     be_classify_level (sample 80 120 80 97 (79 / 2)) (be_patient_thresholds ''normal'') zero_rates =
       Inr (''orange'', rs', 21)"
proof -
  let ?th = "patient_thresholds ''normal''"
  have th: "be_patient_thresholds ''normal'' = ?th"
    by (simp add: patient_thresholds_def be_patient_thresholds_def)
  have counts: "red_count ?th 80 97 120 80 (79 / 2) = 1" "warn_count ?th 80 97 120 80 (79 / 2) = 1"
    "red_points ?th 80 97 120 80 (79 / 2) + trend_points 0 0 0 +
     yellow_points ?th 80 97 120 80 (79 / 2) = 21"
    by (simp_all add: red_count_def warn_count_def red_points_def trend_points_def
        yellow_points_def patient_thresholds_def)
  show ?thesis
    using classify_level_priority [where v = "sample 80 120 80 97 (79 / 2)" and rates = zero_rates
        and th = ?th, OF sample_lookup zero_rates_lookup(1-3)]
    unfolding counts th by (elim exE conjE) simp
qed

text \<open>
  Claim C2. On a window holding fewer than two samples the rate is 0 for every vital
  name and every lookback, whether or not the name is a key of the sample. On a window
  holding at least two samples, let \<open>(t_now, v_now)\<close> be the newest sample. The
  reference \<open>(t_ref, v_ref)\<close> is the first sample, oldest to newest, whose age
  \<open>t_now - t_i\<close> is at least the lookback, and the oldest sample when no age reaches
  it. The rate is \<open>(v_now[vital] - v_ref[vital]) / max(1e-6, t_now - t_ref) * 60\<close>; a
  vital missing from either sample raises \<^verbatim>\<open>KeyError\<close>. The backend \<^verbatim>\<open>_rate\<close> computes
  the same. Numbers are reals here, so the rounding of float division is not modelled.
\<close>

theorem rate_per_minute_spec:
  "(length (data w) < 2 \<longrightarrow>
      rate_per_min key seconds w = Inr 0 \<and> be_rate key seconds w = Inr 0) \<and>
   (2 \<le> length (data w) \<longrightarrow>
      (\<exists>t_now v_now t_ref v_ref i.
         last (data w) = (t_now, v_now) \<and>
         reference_sample t_now seconds (data w) = (t_ref, v_ref) \<and>
         i < length (data w) \<and> data w ! i = (t_ref, v_ref) \<and>
         (\<forall>j < i. t_now - fst (data w ! j) < seconds) \<and>
         (t_now - t_ref \<ge> seconds \<or>
          i = 0 \<and> (\<forall>j < length (data w). t_now - fst (data w ! j) < seconds)) \<and>
         rate_per_min key seconds w =
           and_then (getitem v_now key) (\<lambda>a.
           and_then (getitem v_ref key) (\<lambda>b.
             Inr ((a - b) / max (1 / 1000000) (t_now - t_ref) * 60))) \<and>
         be_rate key seconds w = rate_per_min key seconds w \<and>
         (\<forall>a b. v_now key = Some a \<longrightarrow> v_ref key = Some b \<longrightarrow>
            rate_per_min key seconds w =
              Inr ((a - b) / max (1 / 1000000) (t_now - t_ref) * 60))))"
proof (intro conjI impI)
  assume "length (data w) < 2"
  then show "rate_per_min key seconds w = Inr 0"
    by (rule rate_per_min_short)
  then show "be_rate key seconds w = Inr 0"
    by (simp only: be_rate_eq)
next
  assume long: "2 \<le> length (data w)"
  then have nonempty: "data w \<noteq> []"
    by auto
  obtain t_now v_now where now: "last (data w) = (t_now, v_now)"
    by (cases "last (data w)")
  obtain t_ref v_ref where ref: "reference_sample t_now seconds (data w) = (t_ref, v_ref)"
    by (cases "reference_sample t_now seconds (data w)")
  obtain i where i: "i < length (data w)" "reference_sample t_now seconds (data w) = data w ! i"
    "\<forall>j < i. t_now - fst (data w ! j) < seconds"
    "t_now - fst (data w ! i) \<ge> seconds \<or>
      i = 0 \<and> (\<forall>j < length (data w). t_now - fst (data w ! j) < seconds)"
    using reference_sample_index [OF nonempty, of t_now seconds] by blast
  have at_i: "data w ! i = (t_ref, v_ref)"
    using i(2) ref by simp
  have age: "t_now - t_ref \<ge> seconds \<or>
      i = 0 \<and> (\<forall>j < length (data w). t_now - fst (data w ! j) < seconds)"
    using i(4) at_i by simp
  note rate = rate_per_min_long [OF long now ref, of key]
  have known: "\<forall>a b. v_now key = Some a \<longrightarrow> v_ref key = Some b \<longrightarrow>
      rate_per_min key seconds w = Inr ((a - b) / max (1 / 1000000) (t_now - t_ref) * 60)"
    unfolding rate by (simp add: getitem_Some and_then_Inr)
  show "\<exists>t_now v_now t_ref v_ref i.
         last (data w) = (t_now, v_now) \<and>
         reference_sample t_now seconds (data w) = (t_ref, v_ref) \<and>
         i < length (data w) \<and> data w ! i = (t_ref, v_ref) \<and>
         (\<forall>j < i. t_now - fst (data w ! j) < seconds) \<and>
         (t_now - t_ref \<ge> seconds \<or>
          i = 0 \<and> (\<forall>j < length (data w). t_now - fst (data w ! j) < seconds)) \<and>
         rate_per_min key seconds w =
           and_then (getitem v_now key) (\<lambda>a.
           and_then (getitem v_ref key) (\<lambda>b.
             Inr ((a - b) / max (1 / 1000000) (t_now - t_ref) * 60))) \<and>
         be_rate key seconds w = rate_per_min key seconds w \<and>
         (\<forall>a b. v_now key = Some a \<longrightarrow> v_ref key = Some b \<longrightarrow>
            rate_per_min key seconds w =
              Inr ((a - b) / max (1 / 1000000) (t_now - t_ref) * 60))"
    apply (rule exI [of _ t_now], rule exI [of _ v_now], rule exI [of _ t_ref],
        rule exI [of _ v_ref], rule exI [of _ i])
    apply (intro conjI)
    apply (rule now)
    apply (rule ref)
    apply (rule i(1))
    apply (rule at_i)
    apply (rule i(3))
    apply (rule age)
    apply (rule rate)
    apply (rule be_rate_eq)
    apply (rule known)
    done
qed

theorem rate_per_minute_spec_witness:
  "rate_per_min ''heart_rate'' 60
     \<lparr>maxlen = 120, data = [(100, [''heart_rate'' \<mapsto> 70])]\<rparr> = Inr 0 \<and>
   rate_per_min ''heart_rate'' 60
     \<lparr>maxlen = 120, data = [(150, [''heart_rate'' \<mapsto> 60]), (100, [''heart_rate'' \<mapsto> 70]),
        (200, [''heart_rate'' \<mapsto> 90])]\<rparr> = Inr 12 \<and>
   be_rate ''heart_rate'' 300
     \<lparr>maxlen = 120, data = [(150, [''heart_rate'' \<mapsto> 60]), (100, [''heart_rate'' \<mapsto> 70]),
        (200, [''heart_rate'' \<mapsto> 90])]\<rparr> = Inr 36"
proof -
  let ?one = "\<lparr>maxlen = 120, data = [(100, [''heart_rate'' \<mapsto> (70::real)])]\<rparr>"
  let ?three = "\<lparr>maxlen = 120, data = [(150, [''heart_rate'' \<mapsto> (60::real)]),
    (100, [''heart_rate'' \<mapsto> 70]), (200, [''heart_rate'' \<mapsto> 90])]\<rparr>"
  have one: "rate_per_min ''heart_rate'' 60 ?one = Inr 0"
    using rate_per_minute_spec [of ?one "''heart_rate''" 60] by simp
  have ref: "reference_sample 200 60 (data ?three) = (100, [''heart_rate'' \<mapsto> 70])"
    "reference_sample 200 300 (data ?three) = (150, [''heart_rate'' \<mapsto> 60])"
    by (simp_all add: reference_sample_def)
  have first: "rate_per_min ''heart_rate'' 60 ?three = Inr 12"
    using rate_per_minute_spec [of ?three "''heart_rate''" 60] ref(1)
    by (auto simp: getitem_def and_then_def)
  have oldest: "be_rate ''heart_rate'' 300 ?three = Inr 36"
    using rate_per_minute_spec [of ?three "''heart_rate''" 300] ref(2)
    by (auto simp: getitem_def and_then_def)
  show ?thesis
    using one first oldest by (intro conjI)
qed

text \<open>
  Claim C3. A window built with the default capacity never holds more than 120
  entries. After any sequence of pushes its size is the number of pushes capped at the
  capacity, the samples it holds are the last pushes in arrival order, and once the
  number \<open>n\<close> of pushes exceeds the capacity the earliest entry retained is the one of
  push number \<open>n - capacity + 1\<close> (index \<open>n - capacity\<close> counting from 0). The default
  capacity is 120 in \<^verbatim>\<open>src/risk_engine.py\<close> and 60 in the backend module, so the bound
  by 120 holds for both. For a window of any capacity the size stays at most the
  capacity.
\<close>

theorem default_window_fifo:
  "\<exists>w0 b0.
     RollingWindow_init default_maxlen = Inr w0 \<and> maxlen w0 = 120 \<and> data w0 = [] \<and>
     RollingWindow_init be_default_maxlen = Inr b0 \<and> maxlen b0 = 60 \<and> data b0 = [] \<and>
     length (data (push_all calls w0)) = min (length calls) 120 \<and>
     length (data (push_all calls w0)) \<le> 120 \<and>
     map snd (data (push_all calls w0)) = drop (length calls - 120) (map fst calls) \<and>
     (length calls > 120 \<longrightarrow>
        hd (data (push_all calls w0)) =
          (\<lambda>(vitals, t_epoch, now). (stamp t_epoch now, vitals)) (calls ! (length calls - 120))) \<and>
     length (data (be_push_all be_calls b0)) = min (length be_calls) 60 \<and>
     length (data (be_push_all be_calls b0)) \<le> 120 \<and>
     data (be_push_all be_calls b0) = drop (length be_calls - 60) be_calls \<and>
     (length be_calls > 60 \<longrightarrow>
        hd (data (be_push_all be_calls b0)) = be_calls ! (length be_calls - 60)) \<and>
     (RollingWindow_init n = Inr w \<longrightarrow>
        length (data (push_all calls w)) \<le> maxlen w \<and>
        length (data (be_push_all be_calls w)) \<le> maxlen w)"
proof -
  let ?w0 = "\<lparr>maxlen = 120, data = []\<rparr>" and ?b0 = "\<lparr>maxlen = 60, data = []\<rparr>"
  let ?entry = "\<lambda>(vitals, t_epoch, now). (stamp t_epoch now, vitals)"
  have init: "RollingWindow_init default_maxlen = Inr ?w0"
    "RollingWindow_init be_default_maxlen = Inr ?b0"
    by (simp_all add: RollingWindow_init_def default_maxlen_def be_default_maxlen_def)
  have root: "data (push_all calls ?w0) = drop (length calls - 120) (map ?entry calls)"
    using push_all_fresh(2) [of ?w0 calls] by simp
  have backend: "data (be_push_all be_calls ?b0) = drop (length be_calls - 60) be_calls"
    using be_push_all_fresh(2) [of ?b0 be_calls] by simp
  have snd_entry: "map snd (map ?entry calls) = map fst calls"
    by (simp add: split_beta)
  have kept: "map snd (data (push_all calls ?w0)) = drop (length calls - 120) (map fst calls)"
    unfolding root drop_map [symmetric] snd_entry by (rule refl)
  have first: "length calls > 120 \<longrightarrow>
      hd (data (push_all calls ?w0)) = ?entry (calls ! (length calls - 120))"
    unfolding root by (simp add: hd_drop_conv_nth)
  have be_first: "length be_calls > 60 \<longrightarrow>
      hd (data (be_push_all be_calls ?b0)) = be_calls ! (length be_calls - 60)"
    unfolding backend by (simp add: hd_drop_conv_nth)
  have any: "RollingWindow_init n = Inr w \<longrightarrow>
      length (data (push_all calls w)) \<le> maxlen w \<and>
      length (data (be_push_all be_calls w)) \<le> maxlen w"
  proof
    assume "RollingWindow_init n = Inr w"
    then have empty: "data w = []"
      by (simp add: RollingWindow_init_Inr)
    show "length (data (push_all calls w)) \<le> maxlen w \<and>
      length (data (be_push_all be_calls w)) \<le> maxlen w"
      unfolding push_all_fresh(2) [OF empty] be_push_all_fresh(2) [OF empty] by auto
  qed
  have sizes: "length (data (push_all calls ?w0)) = min (length calls) 120"
    "length (data (push_all calls ?w0)) \<le> 120"
    "length (data (be_push_all be_calls ?b0)) = min (length be_calls) 60"
    "length (data (be_push_all be_calls ?b0)) \<le> 120"
    unfolding root backend by simp_all
  show ?thesis
    apply (rule exI [of _ ?w0], rule exI [of _ ?b0])
    apply (intro conjI)
    apply (rule init(1))
    apply simp
    apply simp
    apply (rule init(2))
    apply simp
    apply simp 
    apply (rule sizes(1))
    apply (rule sizes(2))
    apply (rule kept)
    apply (rule first)
    apply (rule sizes(3))
    apply (rule sizes(4))
    apply (rule backend)
    apply (rule be_first)
    apply (rule any)
    done
qed

theorem default_window_fifo_witness:
  "\<exists>w0 b0.
     RollingWindow_init default_maxlen = Inr w0 \<and>
     RollingWindow_init be_default_maxlen = Inr b0 \<and>
     length (data (push_all
       (map (\<lambda>i. (sample (real i) 120 80 97 37, Some (real i + 1), 0)) [0..<121]) w0)) = 120 \<and>
     hd (data (push_all
       (map (\<lambda>i. (sample (real i) 120 80 97 37, Some (real i + 1), 0)) [0..<121]) w0)) =
       (2, sample 1 120 80 97 37) \<and>
     length (data (be_push_all
       (map (\<lambda>i. (real i + 1, sample (real i) 120 80 97 37)) [0..<62]) b0)) = 60 \<and>
     hd (data (be_push_all
       (map (\<lambda>i. (real i + 1, sample (real i) 120 80 97 37)) [0..<62]) b0)) =
       (3, sample 2 120 80 97 37)"
  using default_window_fifo [of
      "map (\<lambda>i. (sample (real i) 120 80 97 37, Some (real i + 1), 0)) [0..<121]"
      "map (\<lambda>i. (real i + 1, sample (real i) 120 80 97 37)) [0..<62]" 120
      "\<lparr>maxlen = 120, data = []\<rparr>"]
  by (elim exE conjE) (auto simp: stamp_def)

text \<open>
  Claim C4. Take any thresholds and rates, and two vitals dictionaries that differ only
  in \<open>heart_rate\<close>, the second holding the larger value. Both classifications
  return, and the score of the second is at least the score of the first. Each score is
  the sum of the triggered increments clamped to the interval from 0 to 100. This holds
  for the classifier of both modules.
\<close>

theorem score_monotone_in_heart_rate:
  assumes "v ''heart_rate'' = Some hr" "v ''oxygen_saturation'' = Some spo2"
    "v ''bp_systolic'' = Some sys" "v ''bp_diastolic'' = Some dia"
    "v ''temperature'' = Some temp"
    "rates ''heart_rate'' = Some r_hr" "rates ''oxygen_saturation'' = Some r_spo2"
    "rates ''bp_systolic'' = Some r_sys"
    and "hr \<le> hr'"
  shows "(\<exists>lvl rs sc lvl' rs' sc'.
           classify_level v th rates = Inr (lvl, rs, sc) \<and>
           classify_level (v(''heart_rate'' \<mapsto> hr')) th rates = Inr (lvl', rs', sc') \<and>
           sc = max 0 (min 100 (red_points th hr spo2 sys dia temp +
                  trend_points r_hr r_spo2 r_sys + yellow_points th hr spo2 sys dia temp)) \<and>
           sc' = max 0 (min 100 (red_points th hr' spo2 sys dia temp +
                  trend_points r_hr r_spo2 r_sys + yellow_points th hr' spo2 sys dia temp)) \<and>
           0 \<le> sc \<and> sc \<le> sc' \<and> sc' \<le> 100) \<and>
         (\<exists>lvl rs sc lvl' rs' sc'.
           be_classify_level v th rates = Inr (lvl, rs, sc) \<and>
           be_classify_level (v(''heart_rate'' \<mapsto> hr')) th rates = Inr (lvl', rs', sc') \<and>
           sc = max 0 (min 100 (red_points th hr spo2 sys dia temp +
                  trend_points r_hr r_spo2 r_sys + yellow_points th hr spo2 sys dia temp)) \<and>
           sc' = max 0 (min 100 (red_points th hr' spo2 sys dia temp +
                  trend_points r_hr r_spo2 r_sys + yellow_points th hr' spo2 sys dia temp)) \<and>
           0 \<le> sc \<and> sc \<le> sc' \<and> sc' \<le> 100)"
proof -
  let ?v' = "v(''heart_rate'' \<mapsto> hr')"
  have keys': "?v' ''heart_rate'' = Some hr'" "?v' ''oxygen_saturation'' = Some spo2"
    "?v' ''bp_systolic'' = Some sys" "?v' ''bp_diastolic'' = Some dia"
    "?v' ''temperature'' = Some temp"
    using assms(2-5) by simp_all
  define p where "p = red_points th hr spo2 sys dia temp + trend_points r_hr r_spo2 r_sys +
    yellow_points th hr spo2 sys dia temp"
  define p' where "p' = red_points th hr' spo2 sys dia temp + trend_points r_hr r_spo2 r_sys +
    yellow_points th hr' spo2 sys dia temp"
  have "p \<le> p'"
    using points_mono_heart_rate [OF assms(9), of th spo2 sys dia temp] by (simp add: p_def p'_def)
  then have le: "0 \<le> max 0 (min 100 p) \<and> max 0 (min 100 p) \<le> max 0 (min 100 p') \<and>
      max 0 (min 100 p') \<le> 100"
    by auto
  have root: "\<exists>lvl rs sc lvl' rs' sc'.
           classify_level v th rates = Inr (lvl, rs, sc) \<and>
           classify_level ?v' th rates = Inr (lvl', rs', sc') \<and>
           sc = max 0 (min 100 p) \<and> sc' = max 0 (min 100 p') \<and>
           0 \<le> sc \<and> sc \<le> sc' \<and> sc' \<le> 100"
    using classify_level_score(1) [OF assms(1-8), of th]
      classify_level_score(1) [OF keys' assms(6-8), of th] le
    unfolding p_def [symmetric] p'_def [symmetric] by (elim exE) (intro exI conjI; assumption?; simp?)
  have backend: "\<exists>lvl rs sc lvl' rs' sc'.
           be_classify_level v th rates = Inr (lvl, rs, sc) \<and>
           be_classify_level ?v' th rates = Inr (lvl', rs', sc') \<and>
           sc = max 0 (min 100 p) \<and> sc' = max 0 (min 100 p') \<and>
           0 \<le> sc \<and> sc \<le> sc' \<and> sc' \<le> 100"
    using classify_level_score(2) [OF assms(1-8), of th]
      classify_level_score(2) [OF keys' assms(6-8), of th] le
    unfolding p_def [symmetric] p'_def [symmetric] by (elim exE) (intro exI conjI; assumption?; simp?)
  show ?thesis
    using root backend unfolding p_def p'_def by (rule conjI)
qed

theorem score_monotone_in_heart_rate_witness:
  "(\<exists>lvl rs lvl' rs'.
      classify_level (sample 100 120 80 97 37) (patient_thresholds ''normal'') zero_rates =
        Inr (lvl, rs, 0) \<and>
      classify_level ((sample 100 120 80 97 37)(''heart_rate'' \<mapsto> 160))
        (patient_thresholds ''normal'') zero_rates = Inr (lvl', rs', 33)) \<and>
   (\<exists>lvl rs lvl' rs'.
      be_classify_level (sample 100 120 80 97 37) (patient_thresholds ''normal'') zero_rates =
        Inr (lvl, rs, 0) \<and>
      be_classify_level ((sample 100 120 80 97 37)(''heart_rate'' \<mapsto> 160))
        (patient_thresholds ''normal'') zero_rates = Inr (lvl', rs', 33))"
proof -
  let ?th = "patient_thresholds ''normal''"
  have le: "(100::real) \<le> 160"
    by simp
  have points: "red_points ?th 100 97 120 80 37 + trend_points 0 0 0 +
      yellow_points ?th 100 97 120 80 37 = 0"
    "red_points ?th 160 97 120 80 37 + trend_points 0 0 0 +
      yellow_points ?th 160 97 120 80 37 = 33"
    by (simp_all add: red_points_def trend_points_def yellow_points_def patient_thresholds_def)
  show ?thesis
    using score_monotone_in_heart_rate [where v = "sample 100 120 80 97 37"
        and rates = zero_rates and th = ?th, OF sample_lookup zero_rates_lookup(1-3) le]
    unfolding points by (elim exE conjE) simp
qed

text \<open>
  Claim C5. On the profile \<open>normal\<close>, with heart rate 160, blood pressure 185 over 95,
  oxygen saturation 90, temperature 37.0 and all rates 0, the checks end with
  \<open>red_hits = 3\<close> (so at least 3) and a raw score of 106, \<^verbatim>\<open>classify_level\<close> returns
  the level \<open>red\<close> with the score clamped to 100, and \<^verbatim>\<open>infer_outcomes\<close> applied
  to that level and those reasons returns the three outcomes named
  \<open>Acute cardiac event risk\<close>, \<open>Stroke / hypertensive crisis risk\<close> and
  \<open>Respiratory compromise risk\<close>.
\<close>

theorem normal_profile_red_scenario:
  "let v = sample 160 185 95 90 37;
       rs = [''HR 160 >= 150'', ''SpO2 90% <= 92%'', ''BP 185/95 >= 170/110'',
             ''HR 160 >= 110 (warning)'', ''SpO2 90% <= 95% (warning)'',
             ''BP 185/95 elevated (warning)'']
   in checks v (patient_thresholds ''normal'') zero_rates =
        Inr \<lparr>reasons = rs, score = 106, red_hits = 3, warn_hits = 3\<rparr> \<and>
      classify_level v (patient_thresholds ''normal'') zero_rates = Inr (''red'', rs, 100) \<and>
      infer_outcomes v ''red'' rs =
        Inr [cardiac_outcome ''red'' rs, stroke_outcome ''red'' rs,
             respiratory_outcome ''red'' rs] \<and>
      map name [cardiac_outcome ''red'' rs, stroke_outcome ''red'' rs,
                respiratory_outcome ''red'' rs] =
        [''Acute cardiac event risk'', ''Stroke / hypertensive crisis risk'',
         ''Respiratory compromise risk'']"
proof -
  let ?v = "sample 160 185 95 90 37"
  let ?rs = "[''HR 160 >= 150'', ''SpO2 90% <= 92%'', ''BP 185/95 >= 170/110'',
             ''HR 160 >= 110 (warning)'', ''SpO2 90% <= 95% (warning)'',
             ''BP 185/95 elevated (warning)'']"
  have run: "checks ?v (patient_thresholds ''normal'') zero_rates =
      Inr \<lparr>reasons = ?rs, score = 106, red_hits = 3, warn_hits = 3\<rparr>"
    by (simp add: checks_def block_defs reason_defs python_simps sample_def zero_rates_def
        patient_thresholds_def)
  have level: "classify_level ?v (patient_thresholds ''normal'') zero_rates =
      Inr (''red'', ?rs, 100)"
    unfolding classify_level_def run by (simp add: and_then_def decide_def)
  have outs: "infer_outcomes ?v ''red'' ?rs =
      Inr [cardiac_outcome ''red'' ?rs, stroke_outcome ''red'' ?rs,
           respiratory_outcome ''red'' ?rs]"
    by (simp add: infer_outcomes_def python_simps sample_def)
  have names: "map name [cardiac_outcome ''red'' ?rs, stroke_outcome ''red'' ?rs,
        respiratory_outcome ''red'' ?rs] =
      [''Acute cardiac event risk'', ''Stroke / hypertensive crisis risk'',
       ''Respiratory compromise risk'']"
    by (simp add: outcome_defs)
  show ?thesis
    unfolding Let_def using run level outs names by (intro conjI)
qed

text \<open>
  Claim C6. For vitals whose five entries are present, both \<^verbatim>\<open>infer_outcomes\<close>
  functions return. Each of the four pattern rules (cardiac, stroke or hypertensive
  crisis, respiratory, sepsis) contributes its outcome exactly when its own condition
  holds, so none, one or several outcomes can appear. The fallback outcome, named
  \<open>Undifferentiated deterioration risk\<close> with probability 0.50 and the first three
  reasons as its explanation, is appended exactly when no rule fired and the level is
  \<open>orange\<close> or \<open>red\<close>. The explanation of a rule's outcome is its fixed lead-in phrase
  followed by the first two reasons, so no explanation has more than three strings. The
  backend function gives the same names, probabilities and explanations.
\<close>

theorem infer_outcomes_rules:
  assumes "v ''heart_rate'' = Some hr" "v ''oxygen_saturation'' = Some spo2"
    "v ''bp_systolic'' = Some sys" "v ''bp_diastolic'' = Some dia"
    "v ''temperature'' = Some temp"
  shows "\<exists>outs outs'.
     infer_outcomes v level rs = Inr outs \<and> be_infer_outcomes v level rs = Inr outs' \<and>
     outs = fired_outcomes hr sys dia spo2 temp level rs @
       (if fired_outcomes hr sys dia spo2 temp level rs = [] \<and>
           (level = ''orange'' \<or> level = ''red'')
        then [fallback_outcome rs] else []) \<and>
     (cardiac_outcome level rs \<in> set outs \<longleftrightarrow> hr \<ge> 130 \<and> (sys \<ge> 170 \<or> spo2 \<le> 92)) \<and>
     (stroke_outcome level rs \<in> set outs \<longleftrightarrow> sys \<ge> 180 \<or> dia \<ge> 120) \<and>
     (respiratory_outcome level rs \<in> set outs \<longleftrightarrow> spo2 \<le> 90) \<and>
     (sepsis_outcome level rs \<in> set outs \<longleftrightarrow> temp \<ge> 38.5 \<and> hr \<ge> 120) \<and>
     (fallback_outcome rs \<in> set outs \<longleftrightarrow>
        \<not> (hr \<ge> 130 \<and> (sys \<ge> 170 \<or> spo2 \<le> 92)) \<and> \<not> (sys \<ge> 180 \<or> dia \<ge> 120) \<and>
        \<not> spo2 \<le> 90 \<and> \<not> (temp \<ge> 38.5 \<and> hr \<ge> 120) \<and>
        (level = ''orange'' \<or> level = ''red'')) \<and>
     name (fallback_outcome rs) = ''Undifferentiated deterioration risk'' \<and>
     probability (fallback_outcome rs) = 0.50 \<and>
     because (fallback_outcome rs) = take 3 rs \<and>
     because (cardiac_outcome level rs) = ''High HR with high BP or low SpO2'' # take 2 rs \<and>
     because (stroke_outcome level rs) = ''Severely elevated blood pressure'' # take 2 rs \<and>
     because (respiratory_outcome level rs) = ''Low oxygen saturation'' # take 2 rs \<and>
     because (sepsis_outcome level rs) = ''Fever + tachycardia pattern'' # take 2 rs \<and>
     (\<forall>x \<in> set outs. length (because x) \<le> 3) \<and>
     map name outs' = map name outs \<and> map probability outs' = map probability outs \<and>
     map because outs' = map because outs"
proof -
  let ?fired = "fired_outcomes hr sys dia spo2 temp level rs"
  let ?outs = "?fired @
    (if ?fired = [] \<and> (level = ''orange'' \<or> level = ''red'') then [fallback_outcome rs] else [])"
  let ?be_fired = "be_fired_outcomes hr sys dia spo2 temp level rs"
  let ?outs' = "?be_fired @
    (if ?be_fired = [] \<and> (level = ''orange'' \<or> level = ''red'')
     then [be_fallback_outcome rs] else [])"
  have none: "?fired = [] \<longleftrightarrow>
      \<not> (hr \<ge> 130 \<and> (sys \<ge> 170 \<or> spo2 \<le> 92)) \<and> \<not> (sys \<ge> 180 \<or> dia \<ge> 120) \<and>
      \<not> spo2 \<le> 90 \<and> \<not> (temp \<ge> 38.5 \<and> hr \<ge> 120)"
    by (auto simp: fired_outcomes_def)
  have distinct: "cardiac_outcome level rs \<noteq> fallback_outcome rs"
    "stroke_outcome level rs \<noteq> fallback_outcome rs"
    "respiratory_outcome level rs \<noteq> fallback_outcome rs"
    "sepsis_outcome level rs \<noteq> fallback_outcome rs"
    by (simp_all add: outcome_defs)
  have members: "cardiac_outcome level rs \<in> set ?outs \<longleftrightarrow> hr \<ge> 130 \<and> (sys \<ge> 170 \<or> spo2 \<le> 92)"
    "stroke_outcome level rs \<in> set ?outs \<longleftrightarrow> sys \<ge> 180 \<or> dia \<ge> 120"
    "respiratory_outcome level rs \<in> set ?outs \<longleftrightarrow> spo2 \<le> 90"
    "sepsis_outcome level rs \<in> set ?outs \<longleftrightarrow> temp \<ge> 38.5 \<and> hr \<ge> 120"
    using distinct by (simp_all add: fired_outcomes_member)
  have fallback: "fallback_outcome rs \<in> set ?outs \<longleftrightarrow>
        \<not> (hr \<ge> 130 \<and> (sys \<ge> 170 \<or> spo2 \<le> 92)) \<and> \<not> (sys \<ge> 180 \<or> dia \<ge> 120) \<and>
        \<not> spo2 \<le> 90 \<and> \<not> (temp \<ge> 38.5 \<and> hr \<ge> 120) \<and>
        (level = ''orange'' \<or> level = ''red'')"
    using none by (simp add: fired_outcomes_member(5))
  have fields: "name (fallback_outcome rs) = ''Undifferentiated deterioration risk''"
    "probability (fallback_outcome rs) = 0.50"
    "because (fallback_outcome rs) = take 3 rs"
    "because (cardiac_outcome level rs) = ''High HR with high BP or low SpO2'' # take 2 rs"
    "because (stroke_outcome level rs) = ''Severely elevated blood pressure'' # take 2 rs"
    "because (respiratory_outcome level rs) = ''Low oxygen saturation'' # take 2 rs"
    "because (sepsis_outcome level rs) = ''Fever + tachycardia pattern'' # take 2 rs"
    by (simp_all add: outcome_defs)
  have short: "\<forall>x \<in> set ?outs. length (because x) \<le> 3"
    using fired_outcomes_because [of hr sys dia spo2 temp level rs]
    by (auto simp: fallback_outcome_def)
  have same: "map name ?outs' = map name ?outs" "map probability ?outs' = map probability ?outs"
    "map because ?outs' = map because ?outs"
    by (simp_all add: be_fired_outcomes_same fallback_outcome_def be_fallback_outcome_def)
  show ?thesis
    apply (rule exI [of _ ?outs], rule exI [of _ ?outs'])
    apply (intro conjI)
    apply (rule infer_outcomes_fired [OF assms])
    apply (rule be_infer_outcomes_fired [OF assms])
    apply (rule refl)
    apply (rule members(1))
    apply (rule members(2))
    apply (rule members(3))
    apply (rule members(4))
    apply (rule fallback)
    apply (rule fields(1))
    apply (rule fields(2))
    apply (rule fields(3))
    apply (rule fields(4))
    apply (rule fields(5))
    apply (rule fields(6))
    apply (rule fields(7))
    apply (rule short)
    apply (rule same(1))
    apply (rule same(2))
    apply (rule same(3))
    done
qed

theorem infer_outcomes_rules_witness:
  "infer_outcomes (sample 135 185 95 97 37) ''orange'' [''r1'', ''r2'', ''r3'', ''r4''] =
     Inr [cardiac_outcome ''orange'' [''r1'', ''r2'', ''r3'', ''r4''],
          stroke_outcome ''orange'' [''r1'', ''r2'', ''r3'', ''r4'']] \<and>
   because (cardiac_outcome ''orange'' [''r1'', ''r2'', ''r3'', ''r4'']) =
     [''High HR with high BP or low SpO2'', ''r1'', ''r2''] \<and>
   infer_outcomes (sample 80 120 80 97 37) ''orange'' [''r1'', ''r2'', ''r3'', ''r4''] =
     Inr [fallback_outcome [''r1'', ''r2'', ''r3'', ''r4'']] \<and>
   because (fallback_outcome [''r1'', ''r2'', ''r3'', ''r4'']) = [''r1'', ''r2'', ''r3'']"
proof -
  let ?rs = "[''r1'', ''r2'', ''r3'', ''r4'']"
  have fired: "fired_outcomes 135 185 95 97 37 ''orange'' ?rs =
      [cardiac_outcome ''orange'' ?rs, stroke_outcome ''orange'' ?rs]"
    "fired_outcomes 80 120 80 97 37 ''orange'' ?rs = []"
    by (simp_all add: fired_outcomes_def)
  have two: "infer_outcomes (sample 135 185 95 97 37) ''orange'' ?rs =
      Inr [cardiac_outcome ''orange'' ?rs, stroke_outcome ''orange'' ?rs] \<and>
      because (cardiac_outcome ''orange'' ?rs) = [''High HR with high BP or low SpO2'', ''r1'', ''r2'']"
    using infer_outcomes_rules [where v = "sample 135 185 95 97 37" and level = "''orange''"
        and rs = ?rs, OF sample_lookup]
    unfolding fired by (elim exE conjE) simp
  have none: "infer_outcomes (sample 80 120 80 97 37) ''orange'' ?rs =
      Inr [fallback_outcome ?rs] \<and> because (fallback_outcome ?rs) = [''r1'', ''r2'', ''r3'']"
    using infer_outcomes_rules [where v = "sample 80 120 80 97 37" and level = "''orange''"
        and rs = ?rs, OF sample_lookup]
    unfolding fired by (elim exE conjE) simp
  show ?thesis
    using two none by simp
qed

text \<open>
  Claim C7. Whatever profile string the resolver is given, the table it returns (athlete,
  hypertensive, critical, or the normal table for any other tag) has each yellow limit
  strictly on the safe side of its red limit: \<open>hr_yellow < hr_red\<close>,
  \<open>spo2_yellow > spo2_red\<close>, \<open>sys_yellow < sys_red\<close>, \<open>dia_yellow < dia_red\<close>,
  \<open>temp_yellow_hi < temp_red_hi\<close> and \<open>temp_yellow_lo > temp_red_lo\<close>. This holds for
  the resolver of both modules.
\<close>

theorem thresholds_yellow_before_red:
  "yellow_before_red (patient_thresholds profile) \<and>
   yellow_before_red (be_patient_thresholds profile)"
  by (simp add: yellow_before_red_def patient_thresholds_def be_patient_thresholds_def)

text \<open>
  Claim C8, as amended. In both classifiers the reasons list holds the reason strings of
  the checks that trigger, in the fixed evaluation order: red checks, then trend boosts,
  then warning checks. The classifier of \<^verbatim>\<open>src/backend-python/app/risk_engine.py\<close>
  appends the heart-rate warning reason only when the red heart-rate string is not in
  the list yet, which is the case exactly when the red heart-rate check did not trigger.
  The classifier of \<^verbatim>\<open>src/risk_engine.py\<close> has no such test: it appends the heart-rate
  warning reason whenever the warning check triggers. Every other triggered check
  appends its reason string in both.
\<close>

theorem reasons_order_and_dedup:
  assumes "v ''heart_rate'' = Some hr" "v ''oxygen_saturation'' = Some spo2"
    "v ''bp_systolic'' = Some sys" "v ''bp_diastolic'' = Some dia"
    "v ''temperature'' = Some temp"
    "rates ''heart_rate'' = Some r_hr" "rates ''oxygen_saturation'' = Some r_spo2"
    "rates ''bp_systolic'' = Some r_sys"
  shows "\<exists>lvl sc lvl' sc'.
     classify_level v th rates =
       Inr (lvl,
            red_reasons th hr spo2 sys dia temp @ trend_reasons r_hr r_spo2 r_sys @
            (if hr \<ge> hr_yellow th then [reason_hr_yellow hr th] else []) @
            later_yellow_reasons th spo2 sys dia temp,
            sc) \<and>
     be_classify_level v th rates =
       Inr (lvl',
            red_reasons th hr spo2 sys dia temp @ trend_reasons r_hr r_spo2 r_sys @
            (if hr \<ge> hr_yellow th \<and>
                reason_hr_red hr th \<notin>
                  set (red_reasons th hr spo2 sys dia temp @ trend_reasons r_hr r_spo2 r_sys)
             then [reason_hr_yellow hr th] else []) @
            later_yellow_reasons th spo2 sys dia temp,
            sc') \<and>
     (reason_hr_red hr th \<in>
        set (red_reasons th hr spo2 sys dia temp @ trend_reasons r_hr r_spo2 r_sys)
      \<longleftrightarrow> hr \<ge> hr_red th)"
proof -
  obtain s where s: "checks v th rates = Inr s"
    "reasons s = red_reasons th hr spo2 sys dia temp @ trend_reasons r_hr r_spo2 r_sys @
       (if hr \<ge> hr_yellow th then [reason_hr_yellow hr th] else []) @
       later_yellow_reasons th spo2 sys dia temp"
    using checks_total [OF assms, of th] by blast
  obtain s' where s': "be_checks v th rates = Inr s'"
    "reasons s' = red_reasons th hr spo2 sys dia temp @ trend_reasons r_hr r_spo2 r_sys @
       (if hr \<ge> hr_yellow th \<and>
           reason_hr_red hr th \<notin>
             set (red_reasons th hr spo2 sys dia temp @ trend_reasons r_hr r_spo2 r_sys)
        then [reason_hr_yellow hr th] else []) @
       later_yellow_reasons th spo2 sys dia temp"
    using be_checks_total [OF assms, of th] by blast
  show ?thesis
    using classify_level_via_checks [OF s(1)] be_classify_level_via_checks [OF s'(1)]
      reason_hr_red_in_earlier [of hr th spo2 sys dia temp r_hr r_spo2 r_sys]
    unfolding s(2) s'(2) by blast
qed

theorem reasons_order_and_dedup_witness:
  "be_classify_level (sample 155 120 80 97 37) (be_patient_thresholds ''normal'') zero_rates =
     Inr (''orange'', [''HR 155 >= 150''], 33)"
proof -
  let ?v = "sample 155 120 80 97 37" and ?th = "patient_thresholds ''normal''"
  have th: "be_patient_thresholds ''normal'' = ?th"
    by (simp add: patient_thresholds_def be_patient_thresholds_def)
  have lists: "red_reasons ?th 155 97 120 80 37 = [''HR 155 >= 150'']"
    "trend_reasons 0 0 0 = []" "later_yellow_reasons ?th 97 120 80 37 = []"
    "reason_hr_red 155 ?th = ''HR 155 >= 150''"
    by (simp_all add: red_reasons_def trend_reasons_def later_yellow_reasons_def reason_defs
        python_simps patient_thresholds_def)
  have direct: "\<exists>rs. be_classify_level ?v ?th zero_rates = Inr (''orange'', rs, 33)"
    by (simp add: be_classify_level_def be_checks_def decide_def block_defs reason_defs
        python_simps sample_def zero_rates_def patient_thresholds_def)
  show ?thesis
    using reasons_order_and_dedup [where v = ?v and rates = zero_rates and th = ?th,
        OF sample_lookup zero_rates_lookup(1-3)] direct
    unfolding th lists by (elim exE conjE) simp
qed

theorem root_keeps_hr_warning_after_hr_red:
  "classify_level (sample 155 120 80 97 37) (patient_thresholds ''normal'') zero_rates =
     Inr (''orange'', [''HR 155 >= 150'', ''HR 155 >= 110 (warning)''], 33) \<and>
   reason_hr_red 155 (patient_thresholds ''normal'') = ''HR 155 >= 150'' \<and>
   reason_hr_yellow 155 (patient_thresholds ''normal'') = ''HR 155 >= 110 (warning)''"
  by (simp add: classify_level_def checks_def decide_def block_defs reason_defs
      python_simps sample_def zero_rates_def patient_thresholds_def)

text \<open>
  Claim C9. Whenever the eleven checks run to the end with \<open>red_hits = 0\<close> and
  \<open>warn_hits = 0\<close>, the score is the sum of the trend boosts alone and lies between 0 and
  35, the reasons are the reasons of the trend boosts, and the level is \<open>yellow\<close> when
  the score reaches 20 and \<open>green\<close> otherwise: never \<open>orange\<close> or \<open>red\<close>. The backend
  classifier reaches the same counters, score and reasons and returns the same triple.
  A green result can carry a nonzero score and a reason, as the example after the theorem
  shows.
\<close>

theorem trend_only_never_orange:
  assumes "checks v th rates = Inr s" "red_hits s = 0" "warn_hits s = 0"
  shows "0 \<le> score s \<and> score s \<le> 35 \<and>
     (\<exists>r_hr r_spo2 r_sys.
        rates ''heart_rate'' = Some r_hr \<and> rates ''oxygen_saturation'' = Some r_spo2 \<and>
        rates ''bp_systolic'' = Some r_sys \<and>
        score s = trend_points r_hr r_spo2 r_sys \<and>
        reasons s = trend_reasons r_hr r_spo2 r_sys) \<and>
     classify_level v th rates =
       Inr (if score s \<ge> 20 then ''yellow'' else ''green'', reasons s, score s) \<and>
     (\<exists>s'. be_checks v th rates = Inr s' \<and> red_hits s' = 0 \<and> warn_hits s' = 0 \<and>
        score s' = score s \<and> reasons s' = reasons s) \<and>
     be_classify_level v th rates =
       Inr (if score s \<ge> 20 then ''yellow'' else ''green'', reasons s, score s)"
proof -
  obtain hr spo2 sys dia temp r_hr r_spo2 r_sys where keys:
    "v ''heart_rate'' = Some hr" "v ''oxygen_saturation'' = Some spo2"
    "v ''bp_systolic'' = Some sys" "v ''bp_diastolic'' = Some dia"
    "v ''temperature'' = Some temp"
    "rates ''heart_rate'' = Some r_hr" "rates ''oxygen_saturation'' = Some r_spo2"
    "rates ''bp_systolic'' = Some r_sys"
    using checks_keys [OF assms(1)] by blast
  have red0: "red_count th hr spo2 sys dia temp = 0"
    and warn0: "warn_count th hr spo2 sys dia temp = 0"
    and score_s: "score s = red_points th hr spo2 sys dia temp + trend_points r_hr r_spo2 r_sys +
               yellow_points th hr spo2 sys dia temp"
    and reasons_s: "reasons s = red_reasons th hr spo2 sys dia temp @
       trend_reasons r_hr r_spo2 r_sys @
       (if hr \<ge> hr_yellow th then [reason_hr_yellow hr th] else []) @
       later_yellow_reasons th spo2 sys dia temp"
    using checks_total [OF keys, of th] assms by auto
  have score_trend: "score s = trend_points r_hr r_spo2 r_sys"
    unfolding score_s red_count_zero(1) [OF red0] warn_count_zero(1) [OF warn0] by simp
  have reasons_trend: "reasons s = trend_reasons r_hr r_spo2 r_sys"
    unfolding reasons_s red_count_zero(2) [OF red0] warn_count_zero(3) [OF warn0]
    using warn_count_zero(2) [OF warn0] by simp
  have bounds: "0 \<le> score s" "score s \<le> 35"
    unfolding score_trend by (rule trend_points_bounds)+
  have root: "classify_level v th rates =
       Inr (if score s \<ge> 20 then ''yellow'' else ''green'', reasons s, score s)"
    unfolding classify_level_def assms(1) and_then_Inr
      decide_no_hits [OF assms(2,3) bounds] by (rule refl)
  obtain s' where s': "be_checks v th rates = Inr s'"
    "red_hits s' = red_count th hr spo2 sys dia temp"
    "warn_hits s' = warn_count th hr spo2 sys dia temp"
    "score s' = red_points th hr spo2 sys dia temp + trend_points r_hr r_spo2 r_sys +
               yellow_points th hr spo2 sys dia temp"
    "reasons s' = red_reasons th hr spo2 sys dia temp @ trend_reasons r_hr r_spo2 r_sys @
       (if hr \<ge> hr_yellow th \<and>
           reason_hr_red hr th \<notin>
             set (red_reasons th hr spo2 sys dia temp @ trend_reasons r_hr r_spo2 r_sys)
        then [reason_hr_yellow hr th] else []) @
       later_yellow_reasons th spo2 sys dia temp"
    using be_checks_total [OF keys, of th] by blast
  have same: "red_hits s' = 0" "warn_hits s' = 0" "score s' = score s" "reasons s' = reasons s"
    unfolding s'(2-5) score_s reasons_trend red0 warn0 red_count_zero [OF red0]
      warn_count_zero(1,3) [OF warn0]
    using warn_count_zero(2) [OF warn0] by simp_all
  have bounds': "0 \<le> score s'" "score s' \<le> 35"
    unfolding same(3) by (rule bounds)+
  have backend: "be_classify_level v th rates =
       Inr (if score s \<ge> 20 then ''yellow'' else ''green'', reasons s, score s)"
    unfolding be_classify_level_def s'(1) and_then_Inr
      decide_no_hits [OF same(1,2) bounds'] same(3,4) by (rule refl)
  show ?thesis
    using bounds keys(6-8) score_trend reasons_trend root s'(1) same backend by blast
qed

theorem trend_only_never_orange_witness:
  "classify_level (sample 80 120 80 97 37) (patient_thresholds ''normal'')
     (zero_rates(''heart_rate'' \<mapsto> 20)) =
     Inr (''green'', [''HR rising fast (+20.0/min)''], 10) \<and>
   be_classify_level (sample 80 120 80 97 37) (patient_thresholds ''normal'')
     (zero_rates(''heart_rate'' \<mapsto> 20, ''oxygen_saturation'' \<mapsto> - 3)) =
     Inr (''yellow'', [''HR rising fast (+20.0/min)'', ''SpO2 dropping (-3.0/min)''], 25)"
proof -
  let ?v = "sample 80 120 80 97 37" and ?th = "patient_thresholds ''normal''"
  let ?s = "\<lparr>reasons = [''HR rising fast (+20.0/min)''], score = 10, red_hits = 0,
    warn_hits = 0\<rparr>"
  let ?t = "\<lparr>reasons = [''HR rising fast (+20.0/min)'', ''SpO2 dropping (-3.0/min)''],
    score = 25, red_hits = 0, warn_hits = 0\<rparr>"
  have s: "checks ?v ?th (zero_rates(''heart_rate'' \<mapsto> 20)) = Inr ?s"
    by (simp add: checks_def block_defs reason_defs python_simps sample_def zero_rates_def
        patient_thresholds_def)
  have t: "checks ?v ?th (zero_rates(''heart_rate'' \<mapsto> 20, ''oxygen_saturation'' \<mapsto> - 3)) =
      Inr ?t"
    by (simp add: checks_def block_defs reason_defs python_simps sample_def zero_rates_def
        patient_thresholds_def)
  show ?thesis
    using trend_only_never_orange [OF s] trend_only_never_orange [OF t] by simp
qed

text \<open>
  Claim C10. \<^verbatim>\<open>push\<close> of \<^verbatim>\<open>src/risk_engine.py\<close>, on a window with room for at least one
  entry, records as newest entry the vitals with the timestamp
  \<^verbatim>\<open>t_epoch or time.time()\<close>: the clock reading when \<^verbatim>\<open>t_epoch\<close> is \<^verbatim>\<open>None\<close> or 0.0, and
  \<^verbatim>\<open>t_epoch\<close> itself when it is any other number. The clock counts the seconds since
  1970; for a reading other than 0 the recorded timestamp is never 0.0, and after any
  sequence of pushes with such readings, on a window that held no zero timestamp, no
  entry has timestamp 0.0.
\<close>

theorem push_falsy_timestamp:
  assumes "0 < maxlen w"
  shows "last (data (push vitals t_epoch now w)) = (stamp t_epoch now, vitals) \<and>
     stamp None now = now \<and> stamp (Some 0) now = now \<and>
     (t \<noteq> 0 \<longrightarrow> stamp (Some t) now = t) \<and>
     (now \<noteq> 0 \<longrightarrow> stamp t_epoch now \<noteq> 0) \<and>
     ((\<forall>e \<in> set (data w). fst e \<noteq> 0) \<and> (\<forall>(vitals, t_epoch, now) \<in> set calls. now \<noteq> 0) \<longrightarrow>
        (\<forall>e \<in> set (data (push_all calls w)). fst e \<noteq> 0))"
proof (intro conjI impI)
  show "last (data (push vitals t_epoch now w)) = (stamp t_epoch now, vitals)"
    using assms by (simp add: push_def last_deque_append)
  show "stamp None now = now" "stamp (Some 0) now = now"
    by (simp_all add: stamp_def)
  show "stamp (Some t) now = t" if "t \<noteq> 0"
    using that by (simp add: stamp_def)
  show "stamp t_epoch now \<noteq> 0" if "now \<noteq> 0"
    using that by (simp add: stamp_def split: option.splits)
  show "\<forall>e \<in> set (data (push_all calls w)). fst e \<noteq> 0"
    if "(\<forall>e \<in> set (data w). fst e \<noteq> 0) \<and> (\<forall>(vitals, t_epoch, now) \<in> set calls. now \<noteq> 0)"
    using that push_all_stamps [of w calls] by blast
qed

theorem push_falsy_timestamp_witness:
  "last (data (push (sample 80 120 80 97 37) (Some 0) 1700000000
     \<lparr>maxlen = 120, data = []\<rparr>)) = (1700000000, sample 80 120 80 97 37) \<and>
   last (data (push (sample 80 120 80 97 37) None 1700000000
     \<lparr>maxlen = 120, data = []\<rparr>)) = (1700000000, sample 80 120 80 97 37) \<and>
   last (data (push (sample 80 120 80 97 37) (Some 5) 1700000000
     \<lparr>maxlen = 120, data = []\<rparr>)) = (5, sample 80 120 80 97 37) \<and>
   0 \<notin> fst ` set (data (push_all
     [(sample 80 120 80 97 37, Some 0, 1700000000), (sample 81 120 80 97 37, None, 1700000001),
      (sample 82 120 80 97 37, Some 5, 1700000002)]
     \<lparr>maxlen = 120, data = []\<rparr>))"
proof -
  let ?w = "\<lparr>maxlen = 120, data = []\<rparr>" and ?v = "sample 80 120 80 97 37"
  let ?calls = "[(sample 80 120 80 97 37, Some 0, 1700000000),
    (sample 81 120 80 97 37, None, 1700000001), (sample 82 120 80 97 37, Some 5, 1700000002)]"
  have cap: "0 < maxlen ?w"
    by simp
  have zero: "last (data (push ?v (Some 0) 1700000000 ?w)) = (1700000000, ?v)"
    using push_falsy_timestamp [OF cap, of ?v "Some 0" 1700000000 5 "[]"] by simp
  have none: "last (data (push ?v None 1700000000 ?w)) = (1700000000, ?v)"
    using push_falsy_timestamp [OF cap, of ?v None 1700000000 5 "[]"] by simp
  have given: "last (data (push ?v (Some 5) 1700000000 ?w)) = (5, ?v)"
    using push_falsy_timestamp [OF cap, of ?v "Some 5" 1700000000 5 "[]"] by simp
  have "\<forall>e \<in> set (data (push_all ?calls ?w)). fst e \<noteq> 0"
    using push_falsy_timestamp [OF cap, of ?v None 1700000000 5 ?calls] by simp
  then have never: "0 \<notin> fst ` set (data (push_all ?calls ?w))"
    by auto
  show ?thesis
    using zero none given never by (intro conjI)
qed

end
